theory Spec2Isabelle
  imports Main "HOL-Library.Multiset" "HOL-Library.Word"
begin

unbundle bit_operations_syntax

section \<open>HTTP replies and storage errors\<close>

text \<open>
  A reply as the handlers hand it to \<^verbatim>\<open>send_reply\<close>: the status code and headers of
  the \<^verbatim>\<open>http_response\<close> object, and the body string passed beside it.
\<close>

record reply =
  code :: int
  headers :: "(string \<times> string) list"
  body :: string

text \<open>
  \<^verbatim>\<open>send_reply(int)\<close> answers with a bare status: no header is set by the handler
  and no body is passed.
\<close>

definition send_reply_code :: "int \<Rightarrow> reply" where
  "send_reply_code c = \<lparr>code = c, headers = [], body = []\<rparr>"

text \<open>
  \<^verbatim>\<open>http_headers::add\<close> appends a header line; \<^verbatim>\<open>http_headers::set\<close> replaces the value
  of a header that is already there and appends it otherwise.
\<close>

definition headers_add :: "string \<Rightarrow> string \<Rightarrow> (string \<times> string) list \<Rightarrow> (string \<times> string) list" where
  "headers_add k v hs = hs @ [(k, v)]"

definition headers_set :: "string \<Rightarrow> string \<Rightarrow> (string \<times> string) list \<Rightarrow> (string \<times> string) list" where
  "headers_set k v hs =
     (if k \<in> fst ` set hs then map (\<lambda>(k', v'). if k' = k then (k', v) else (k', v')) hs
      else hs @ [(k, v)])"

text \<open>
  The storage client's \<^verbatim>\<open>error_info\<close>: a code and a message; its conversion to
  \<^verbatim>\<open>bool\<close> (the test \<^verbatim>\<open>if (error)\<close>) is true when the code is not zero.
\<close>

record error_info =
  err_code :: int
  err_message :: string

definition is_error :: "error_info \<Rightarrow> bool" where
  "is_error e = (err_code e \<noteq> 0)"

definition ENOENT :: int where
  "ENOENT = 2"

section \<open>Strings and sizes\<close>

text \<open>
  \<^verbatim>\<open>size_t\<close> is a 64-bit word, so that \<^verbatim>\<open>npos + 1\<close> and \<^verbatim>\<open>begin - 1\<close> wrap as they
  do in the program. \<^verbatim>\<open>std::string::find(c, pos)\<close> gives the index of the first \<open>c\<close>
  at or after \<open>pos\<close>, or \<^verbatim>\<open>npos\<close>; \<^verbatim>\<open>substr(pos, n)\<close> throws \<^verbatim>\<open>std::out_of_range\<close>
  when \<open>pos\<close> is beyond the end and otherwise returns the \<open>min n (size - pos)\<close>
  characters from \<open>pos\<close> on.
\<close>

type_synonym size_t = "64 word"

datatype error =
    Out_of_range
  | Runtime_error string
  | Bad_lexical_cast
  | Assertion_failed
  | Unknown_exception

definition npos :: size_t where
  "npos = - 1"

primrec index_of :: "char \<Rightarrow> string \<Rightarrow> nat option" where
  "index_of c [] = None"
| "index_of c (x # xs) = (if x = c then Some 0 else map_option Suc (index_of c xs))"

definition str_find :: "string \<Rightarrow> char \<Rightarrow> size_t \<Rightarrow> size_t" where
  "str_find s c pos =
     (case index_of c (drop (unat pos) s) of
        None \<Rightarrow> npos
      | Some i \<Rightarrow> of_nat (unat pos + i))"

definition substr :: "string \<Rightarrow> size_t \<Rightarrow> size_t \<Rightarrow> error + string" where
  "substr s pos n =
     (if length s < unat pos then Inl Out_of_range
      else let rlen = min (unat n) (length s - unat pos)
           in Inr (take rlen (drop (unat pos) s)))"

section \<open>Requests and namespaces\<close>

text \<open>
  A request as the handlers read it: the URL string, the query items that
  \<^verbatim>\<open>url().query()\<close> parses out of it, and the header list.
  \<^verbatim>\<open>has_item\<close> tests for a query name, \<^verbatim>\<open>item_value\<close> and \<^verbatim>\<open>headers().get\<close>
  give the first value stored under a name.
\<close>

record http_request =
  url :: string
  query :: "(string \<times> string) list"
  req_headers :: "(string \<times> string) list"

definition has_item :: "(string \<times> string) list \<Rightarrow> string \<Rightarrow> bool" where
  "has_item q n = (n \<in> fst ` set q)"

definition item_value :: "(string \<times> string) list \<Rightarrow> string \<Rightarrow> string option" where
  "item_value q n = map_of q n"

definition headers_get :: "(string \<times> string) list \<Rightarrow> string \<Rightarrow> string option" where
  "headers_get hs n = map_of hs n"

datatype checker = All | Quorum | At_least_one

text \<open>
  \<^verbatim>\<open>namespace_t\<close>; a value-initialised one (\<^verbatim>\<open>namespace_t()\<close>) has an empty name, no
  checker and an empty key.
\<close>

record namespace_t =
  name :: string
  groups_count :: int
  result_checker :: "checker option"
  auth_key :: string

definition namespace_t_default :: namespace_t where
  "namespace_t_default = \<lparr>name = [], groups_count = 0, result_checker = None, auth_key = []\<rparr>"

text \<open>\<^verbatim>\<open>get_filename\<close>: the file name and the namespace name cut out of the URL string.\<close>

definition get_filename :: "http_request \<Rightarrow> error + (string \<times> string)" where
  "get_filename req =
     (let scriptname = url req;
          begin = str_find scriptname (CHR ''/'') 1 + 1;
          end = str_find scriptname (CHR ''?'') begin
      in case substr scriptname begin (end - begin) of
           Inl e \<Rightarrow> Inl e
         | Inr filename \<Rightarrow>
             (let namespace_end = begin - 1;
                  namespace_beg = str_find scriptname (CHR ''-'') 0
              in if namespace_beg = npos then Inr (filename, ''default'')
                 else if namespace_beg + 1 < namespace_end
                 then (case substr scriptname (namespace_beg + 1) (namespace_end - (namespace_beg + 1)) of
                         Inl e \<Rightarrow> Inl e
                       | Inr str_namespace \<Rightarrow> Inr (filename, str_namespace))
                 else Inr (filename, [])))"

text \<open>
  \<^verbatim>\<open>proxy::get_file_info\<close>: the key is the file name; the namespace is the registry's
  entry for the parsed name, or a value-initialised \<^verbatim>\<open>namespace_t\<close> when there is none.
\<close>

definition get_file_info :: "(string \<rightharpoonup> namespace_t) \<Rightarrow> http_request \<Rightarrow> error + (string \<times> namespace_t)" where
  "get_file_info m_namespaces req =
     (case get_filename req of
        Inl e \<Rightarrow> Inl e
      | Inr p \<Rightarrow>
          Inr (fst p, (case m_namespaces (snd p) of Some ns \<Rightarrow> ns | None \<Rightarrow> namespace_t_default)))"

section \<open>The server, the session and what a handler does\<close>

text \<open>
  The data container of an upload: the payload and the embedded timestamp, when one
  was set. \<^verbatim>\<open>pack\<close> and \<^verbatim>\<open>unpack\<close> are the codec's, taken as parameters here.
\<close>

record timespec =
  tv_sec :: "64 word"
  tv_nsec :: "64 word"

record data_container_t =
  data :: string
  embed_timestamp :: "timespec option"

definition embeds_count :: "data_container_t \<Rightarrow> nat" where
  "embeds_count dc = (case embed_timestamp dc of None \<Rightarrow> 0 | Some _ \<Rightarrow> 1)"

definition UF_EMBEDS :: "64 word" where
  "UF_EMBEDS = 1"

text \<open>
  What the handlers read from the server object and its collaborators: the namespace
  registry, the die limit, the session's number of live states and user flags, the
  credential check, the balancer's group tables (a call may throw), the two
  \<^verbatim>\<open>boost::lexical_cast\<close> instances (\<open>None\<close> is \<^verbatim>\<open>bad_lexical_cast\<close>) and the codec.
\<close>

record server =
  m_namespaces :: "string \<rightharpoonup> namespace_t"
  m_die_limit :: int
  state_num :: int
  user_flags :: "64 word"
  check_basic_auth :: "string \<Rightarrow> string \<Rightarrow> string option \<Rightarrow> bool"
  get_groups :: "int \<Rightarrow> string \<Rightarrow> error + int list"
  groups_for_upload :: "namespace_t \<Rightarrow> error + int list"
  lexical_cast_int :: "string \<Rightarrow> int option"
  lexical_cast_uint64 :: "string \<Rightarrow> 64 word option"
  pack :: "data_container_t \<Rightarrow> string"

text \<open>
  The effects of a dispatch, in program order: replies sent, settings made on the
  request's own session clone, and operations issued to the storage client
  (key, data, offset, size). Log lines are left out.
\<close>

datatype action =
    Send_reply reply
  | Set_checker "checker option"
  | Set_groups "int list"
  | Set_user_flags "64 word"
  | Set_filter_all
  | Set_error_handler_remove_on_fail
  | Write_prepare string string "64 word" "64 word"
  | Write_commit string string "64 word" "64 word"
  | Write_plain string string "64 word"
  | Write_data string string "64 word" "64 word"
  | Remove string

fun is_storage_operation :: "action \<Rightarrow> bool" where
  "is_storage_operation (Write_prepare _ _ _ _) = True"
| "is_storage_operation (Write_commit _ _ _ _) = True"
| "is_storage_operation (Write_plain _ _ _) = True"
| "is_storage_operation (Write_data _ _ _ _) = True"
| "is_storage_operation (Remove _) = True"
| "is_storage_operation _ = False"

definition get_arg_uint64 :: "server \<Rightarrow> (string \<times> string) list \<Rightarrow> string \<Rightarrow> 64 word \<Rightarrow> error + 64 word" where
  "get_arg_uint64 srv query_list n default_value =
     (case item_value query_list n of
        None \<Rightarrow> Inr default_value
      | Some arg \<Rightarrow>
          (case lexical_cast_uint64 srv arg of None \<Rightarrow> Inl Bad_lexical_cast | Some v \<Rightarrow> Inr v))"

section \<open>Upload: dispatch\<close>

text \<open>
  The file-local function \<^verbatim>\<open>write\<close> (here \<open>write_content\<close>): the effects on the session and the exception, if one
  was thrown before an operation was issued.
\<close>

definition write_content :: "server \<Rightarrow> string \<Rightarrow> string \<Rightarrow> (string \<times> string) list \<Rightarrow> action list \<times> error option" where
  "write_content srv key content query_list =
     (case get_arg_uint64 srv query_list ''offset'' 0 of
        Inl e \<Rightarrow> ([Set_error_handler_remove_on_fail], Some e)
      | Inr offset \<Rightarrow>
          (case item_value query_list ''prepare'' of
             Some arg \<Rightarrow>
               (case lexical_cast_uint64 srv arg of
                  None \<Rightarrow> ([Set_error_handler_remove_on_fail], Some Bad_lexical_cast)
                | Some sz \<Rightarrow>
                    ([Set_error_handler_remove_on_fail, Write_prepare key content offset sz], None))
           | None \<Rightarrow>
               (case item_value query_list ''commit'' of
                  Some arg \<Rightarrow>
                    (case lexical_cast_uint64 srv arg of
                       None \<Rightarrow> ([Set_error_handler_remove_on_fail], Some Bad_lexical_cast)
                     | Some sz \<Rightarrow>
                         ([Set_error_handler_remove_on_fail, Write_commit key content offset sz], None))
                | None \<Rightarrow>
                    (if has_item query_list ''plain_write'' \<or> has_item query_list ''plain-write''
                     then ([Set_error_handler_remove_on_fail, Write_plain key content offset], None)
                     else ([Set_error_handler_remove_on_fail, Write_data key content offset 0], None)))))"

text \<open>The container built from the request body and the embed flags of the query.\<close>

definition upload_container :: "server \<Rightarrow> (string \<times> string) list \<Rightarrow> string \<Rightarrow> error + data_container_t" where
  "upload_container srv query_list buffer =
     (let dc = \<lparr>data = buffer, embed_timestamp = None\<rparr>
      in if has_item query_list ''embed'' \<or> has_item query_list ''embed_timestamp''
         then (case get_arg_uint64 srv query_list ''timestamp'' 0 of
                 Inl e \<Rightarrow> Inl e
               | Inr sec \<Rightarrow> Inr (dc\<lparr>embed_timestamp := Some \<lparr>tv_sec = sec, tv_nsec = 0\<rparr>\<rparr>))
         else Inr dc)"

text \<open>
  \<^verbatim>\<open>req_upload::on_request\<close>. Every exception thrown inside its \<^verbatim>\<open>try\<close> block ends
  in \<^verbatim>\<open>send_reply(500)\<close>, after the effects that came before it.
\<close>

definition req_upload_on_request :: "server \<Rightarrow> http_request \<Rightarrow> string \<Rightarrow> action list" where
  "req_upload_on_request srv req buffer =
     (case get_file_info (m_namespaces srv) req of
        Inl e \<Rightarrow> [Send_reply (send_reply_code 500)]
      | Inr file_info \<Rightarrow>
          if name (snd file_info) = [] then [Send_reply (send_reply_code 400)]
          else
            let m_key = fst file_info
            in Set_checker (result_checker (snd file_info)) #
               (case groups_for_upload srv (snd file_info) of
                  Inl e \<Rightarrow> [Send_reply (send_reply_code 500)]
                | Inr groups \<Rightarrow>
                    Set_groups groups #
                    (if state_num srv < m_die_limit srv then [Send_reply (send_reply_code 500)]
                     else
                       (case upload_container srv (query req) buffer of
                          Inl e \<Rightarrow> [Send_reply (send_reply_code 500)]
                        | Inr dc \<Rightarrow>
                            (if embeds_count dc \<noteq> 0
                             then [Set_user_flags (user_flags srv OR UF_EMBEDS)] else []) @
                            (case write_content srv m_key (pack srv dc) (query req) of
                               (acts, None) \<Rightarrow> acts
                             | (acts, Some e) \<Rightarrow> acts @ [Send_reply (send_reply_code 500)])))))"

section \<open>Delete: dispatch\<close>

text \<open>
  \<^verbatim>\<open>req_delete::on_request\<close> of \<^verbatim>\<open>delete.cpp\<close>. The block that answers 401 does not
  return: control goes on to the group lookup and, with groups and enough live
  states, to \<^verbatim>\<open>session.remove\<close>. A failure of \<^verbatim>\<open>lexical_cast\<close> or of \<^verbatim>\<open>get_groups\<close> is
  caught by the inner handler (400); any other exception by the outer one (500).
\<close>

definition unauthorized_reply :: "string \<Rightarrow> reply" where
  \<open>unauthorized_reply ns_name =
     \<lparr>code = 401,
      headers = headers_add ''WWW-Authenticate'' (''Basic realm="'' @ ns_name @ ''"'') [],
      body = []\<rparr>\<close>

definition delete_groups_and_remove :: "server \<Rightarrow> string \<Rightarrow> namespace_t \<Rightarrow> action list" where
  "delete_groups_and_remove srv group_key ns =
     (let pos = str_find group_key (CHR ''/'') 0
      in if pos = npos then [Send_reply (send_reply_code 400)]
         else
           (case substr group_key (pos + 1) npos of
              Inl e \<Rightarrow> [Send_reply (send_reply_code 500)]
            | Inr filename \<Rightarrow>
                (case substr group_key 0 pos of
                   Inl e \<Rightarrow> [Send_reply (send_reply_code 500)]
                 | Inr group_str \<Rightarrow>
                     (case lexical_cast_int srv group_str of
                        None \<Rightarrow> [Send_reply (send_reply_code 400)]
                      | Some g \<Rightarrow>
                          (case get_groups srv g filename of
                             Inl e \<Rightarrow> [Send_reply (send_reply_code 400)]
                           | Inr groups \<Rightarrow>
                               Set_groups groups #
                               (let key = name ns @ [CHR ''.''] @ filename
                                in if groups = [] then [Send_reply (send_reply_code 404)]
                                   else if state_num srv < m_die_limit srv
                                   then [Send_reply (send_reply_code 500)]
                                   else [Set_filter_all, Remove key]))))))"

definition req_delete_on_request :: "server \<Rightarrow> http_request \<Rightarrow> action list" where
  "req_delete_on_request srv req =
     (case get_file_info (m_namespaces srv) req of
        Inl e \<Rightarrow> [Send_reply (send_reply_code 500)]
      | Inr file_info \<Rightarrow>
          if name (snd file_info) = [] then [Send_reply (send_reply_code 400)]
          else
            (if \<not> check_basic_auth srv (name (snd file_info)) (auth_key (snd file_info))
                    (headers_get (req_headers req) ''Authorization'')
             then [Send_reply (unauthorized_reply (name (snd file_info)))]
             else []) @
            delete_groups_and_remove srv (fst file_info) (snd file_info))"

text \<open>
  The later \<^verbatim>\<open>req_delete::on_request\<close>, which resolves the namespace with
  \<^verbatim>\<open>get_namespace(url, "/delete")\<close> and prepares the session with
  \<^verbatim>\<open>prepare_session(url, ns)\<close> (both taken as parameters; a prepared session is
  given by its number of live states and the key). Its 401 block ends in \<^verbatim>\<open>return\<close>.
\<close>

definition req_delete_on_request_revised ::
  "(string \<Rightarrow> string \<Rightarrow> error + namespace_t) \<Rightarrow> (string \<Rightarrow> namespace_t \<Rightarrow> error + (int \<times> string)) \<Rightarrow>
   server \<Rightarrow> http_request \<Rightarrow> action list" where
  "req_delete_on_request_revised get_namespace prepare_session srv req =
     (let url_str = url req
      in case get_namespace url_str ''/delete'' of
           Inl e \<Rightarrow> [Send_reply (send_reply_code 400)]
         | Inr ns \<Rightarrow>
             if \<not> check_basic_auth srv (name ns) (auth_key ns)
                   (headers_get (req_headers req) ''Authorization'')
             then [Send_reply (unauthorized_reply (name ns))]
             else
               (case prepare_session url_str ns of
                  Inl e \<Rightarrow> [Send_reply (send_reply_code 500)]
                | Inr (session_state_num, key) \<Rightarrow>
                    if session_state_num < m_die_limit srv
                    then [Send_reply (send_reply_code 500)]
                    else [Set_filter_all, Remove key]))"

text \<open>
  A server with the one namespace \<open>bar\<close>, which requires the credential \<open>secret\<close>,
  and a delete request for it that carries no \<^verbatim>\<open>Authorization\<close> header.
\<close>

definition bar_namespace :: namespace_t where
  "bar_namespace =
     \<lparr>name = ''bar'', groups_count = 2, result_checker = Some Quorum, auth_key = ''secret''\<rparr>"

definition bar_server :: server where
  "bar_server =
     \<lparr>m_namespaces = [''bar'' \<mapsto> bar_namespace],
      m_die_limit = 1, state_num = 3, user_flags = 0,
      check_basic_auth = (\<lambda>n k h. k = [] \<or> h = Some k),
      get_groups = (\<lambda>g f. Inr [g, g + 1]),
      groups_for_upload = (\<lambda>ns. Inr [1, 2]),
      lexical_cast_int = (\<lambda>s. if s = ''1'' then Some 1 else None),
      lexical_cast_uint64 = (\<lambda>s. if s = ''7'' then Some 7 else None),
      pack = (\<lambda>dc. data dc)\<rparr>"

definition delete_bar_request :: http_request where
  "delete_bar_request = \<lparr>url = ''/delete-bar/1/file'', query = [], req_headers = []\<rparr>"

definition delete_default_request :: http_request where
  "delete_default_request = \<lparr>url = ''/delete/1/file'', query = [], req_headers = []\<rparr>"

section \<open>Delete: completion\<close>

text \<open>
  \<^verbatim>\<open>req_delete::on_finished\<close>: the remove result is ignored; the reply depends on the
  asynchronous error alone.
\<close>

definition req_delete_on_finished :: "error_info \<Rightarrow> reply" where
  "req_delete_on_finished error =
     (if is_error error
      then send_reply_code (if err_code error = - ENOENT then 404 else 500)
      else send_reply_code 200)"

section \<open>Rendering numbers and lists\<close>

text \<open>Decimal output of \<^verbatim>\<open>operator<<\<close> for unsigned and signed integers.\<close>

fun string_of_nat :: "nat \<Rightarrow> string" where
  "string_of_nat n =
     (if n < 10 then [''0123456789'' ! n]
      else string_of_nat (n div 10) @ [''0123456789'' ! (n mod 10)])"

declare string_of_nat.simps [simp del]

definition string_of_int :: "int \<Rightarrow> string" where
  "string_of_int i = (if i < 0 then CHR ''-'' # string_of_nat (nat (- i)) else string_of_nat (nat i))"

text \<open>The loop that prints a group list: \<open>", "\<close> before every element but the first.\<close>

fun join_groups :: "int list \<Rightarrow> string" where
  "join_groups [] = []"
| "join_groups [g] = string_of_int g"
| "join_groups (g # h # gs) = string_of_int g @ '', '' @ join_groups (h # gs)"

section \<open>Lookup results\<close>

text \<open>
  One entry of a write or lookup result set, as the storage client delivers it: the
  group and status of the command header, the raw node address, the file-info record
  with the path string that trails it, and the entry's own error.
\<close>

record lookup_result_entry =
  cmd_group_id :: int
  cmd_status :: int
  storage_address :: string
  info_offset :: "64 word"
  info_size :: "64 word"
  file_path :: string
  entry_error :: error_info

text \<open>
  What the decoder takes from the network and the libraries: the name a reverse
  lookup of a raw address finds (\<open>None\<close> when it finds none), the numeric form of
  the address (\<open>None\<close> for an address of a family that cannot be printed),
  \<^verbatim>\<open>dnet_server_convert_dnet_addr_raw\<close>, and the session's key transform printed by
  \<^verbatim>\<open>id_str\<close>.
\<close>

record resolver =
  reverse_dns :: "string \<Rightarrow> string option"
  numeric_host :: "string \<Rightarrow> string option"
  dnet_server_convert_dnet_addr_raw :: "string \<Rightarrow> string"
  id_str :: "string \<Rightarrow> string"

text \<open>
  The host part of \<^verbatim>\<open>getnameinfo\<close>, as POSIX describes it; \<open>None\<close> stands for a
  non-zero return value, \<open>Some h\<close> for the NUL-terminated string left in the buffer.
  With \<^verbatim>\<open>NI_NUMERICHOST\<close> the numeric form is returned. Otherwise the name of the
  reverse lookup is; when there is no name the call fails only if \<^verbatim>\<open>NI_NAMEREQD\<close> is
  among the flags, and returns the numeric form if it is not.
\<close>

definition NI_NUMERICHOST :: int where
  "NI_NUMERICHOST = 1"

definition NI_NAMEREQD :: int where
  "NI_NAMEREQD = 8"

definition getnameinfo :: "resolver \<Rightarrow> string \<Rightarrow> int \<Rightarrow> string option" where
  "getnameinfo rs sa flags =
     (case numeric_host rs sa of
        None \<Rightarrow> None
      | Some num \<Rightarrow>
          if flags AND NI_NUMERICHOST \<noteq> 0 then Some num
          else (case reverse_dns rs sa of
                  Some nm \<Rightarrow> Some nm
                | None \<Rightarrow> if flags AND NI_NAMEREQD \<noteq> 0 then None else Some num))"

text \<open>
  The class \<^verbatim>\<open>lookup_result\<close> of \<^verbatim>\<open>lookup_result.cpp\<close>: the entry, the signing port
  and the memoised fields, empty after construction. Each accessor returns its value
  and the object with the cache filled.
\<close>

record lookup_result =
  m_entry :: lookup_result_entry
  m_sign_port :: string
  m_host :: "string option"
  m_addr :: "string option"
  m_path :: "string option"
  m_full_path :: "string option"

definition new_lookup_result :: "lookup_result_entry \<Rightarrow> string \<Rightarrow> lookup_result" where
  "new_lookup_result entry sign_port =
     \<lparr>m_entry = entry, m_sign_port = sign_port,
      m_host = None, m_addr = None, m_path = None, m_full_path = None\<rparr>"

definition host :: "resolver \<Rightarrow> lookup_result \<Rightarrow> (error + string) \<times> lookup_result" where
  "host rs lr =
     (case m_host lr of
        Some h \<Rightarrow> (Inr h, lr)
      | None \<Rightarrow>
          (case getnameinfo rs (storage_address (m_entry lr)) 0 of
             None \<Rightarrow> (Inl (Runtime_error ''can not make dns lookup''), lr)
           | Some hbuf \<Rightarrow>
               (let oss = hbuf;
                    oss = (if m_sign_port lr \<noteq> [] then oss @ [CHR '':''] @ m_sign_port lr else oss)
                in (Inr oss, lr\<lparr>m_host := Some oss\<rparr>))))"

definition group_id :: "lookup_result \<Rightarrow> int" where
  "group_id lr = cmd_group_id (m_entry lr)"

definition status :: "lookup_result \<Rightarrow> int" where
  "status lr = cmd_status (m_entry lr)"

definition addr :: "resolver \<Rightarrow> lookup_result \<Rightarrow> string \<times> lookup_result" where
  "addr rs lr =
     (case m_addr lr of
        Some a \<Rightarrow> (a, lr)
      | None \<Rightarrow>
          (let addr_dst = dnet_server_convert_dnet_addr_raw rs (storage_address (m_entry lr))
           in (addr_dst, lr\<lparr>m_addr := Some addr_dst\<rparr>)))"

definition path :: "lookup_result \<Rightarrow> string \<times> lookup_result" where
  "path lr =
     (case m_path lr of
        Some p \<Rightarrow> (p, lr)
      | None \<Rightarrow>
          (let p = file_path (m_entry lr);
               oss = p @ [CHR '':''] @ string_of_nat (unat (info_offset (m_entry lr))) @
                     [CHR '':''] @ string_of_nat (unat (info_size (m_entry lr)))
           in (oss, lr\<lparr>m_path := Some oss\<rparr>)))"

definition full_path :: "lookup_result \<Rightarrow> string \<times> lookup_result" where
  "full_path lr =
     (case m_full_path lr of
        Some p \<Rightarrow> (p, lr)
      | None \<Rightarrow> (file_path (m_entry lr), lr\<lparr>m_full_path := Some (file_path (m_entry lr))\<rparr>))"

section \<open>Upload: completion\<close>

text \<open>
  \<^verbatim>\<open>std::set_difference\<close> on two sorted ranges: the elements of the first that are
  not matched by an element of the second, in order.
\<close>

fun set_difference :: "int list \<Rightarrow> int list \<Rightarrow> int list" where
  "set_difference [] ys = []"
| "set_difference (x # xs) [] = x # xs"
| "set_difference (x # xs) (y # ys) =
     (if x < y then x # set_difference xs (y # ys)
      else if y < x then set_difference (x # xs) ys
      else set_difference xs ys)"

text \<open>
  What \<^verbatim>\<open>req_upload::on_finished\<close> reads from the request object: the key, the packed
  content, the groups of its session and the signing port handed to \<^verbatim>\<open>parse_lookup\<close>.
\<close>

record upload_request =
  m_key :: string
  m_content :: string
  session_groups :: "int list"
  sign_port :: string

text \<open>The first loop: the group of every entry of the result set.\<close>

definition good_groups_of :: "lookup_result_entry list \<Rightarrow> int list" where
  "good_groups_of swr = map cmd_group_id swr"


text \<open>The loop over the result set that prints the \<open>complete\<close> elements and counts.\<close>

definition complete_element :: "resolver \<Rightarrow> string \<Rightarrow> lookup_result_entry \<Rightarrow> string" where
  \<open>complete_element rs port entry =
     (let pl = new_lookup_result entry port;
          (a, pl) = addr rs pl;
          (fp, pl) = full_path pl
      in ''<complete addr="'' @ a @ ''" path="'' @ fp @ ''" group="'' @ string_of_int (group_id pl) @
         ''" status="'' @ string_of_int (status pl) @ ''"/>\<newline>'')\<close>

fun complete_loop :: "resolver \<Rightarrow> string \<Rightarrow> lookup_result_entry list \<Rightarrow> string \<times> nat \<Rightarrow> string \<times> nat" where
  "complete_loop rs port [] (oss, written) = (oss, written)"
| "complete_loop rs port (entry # swr) (oss, written) =
     complete_loop rs port swr
       (oss @ complete_element rs port entry,
        if status (new_lookup_result entry port) = 0 then written + 1 else written)"

text \<open>\<^verbatim>\<open>std::min_element\<close> of the groups; dereferencing it is undefined for no groups.\<close>

definition min_element :: "int list \<Rightarrow> int option" where
  "min_element groups = (case groups of [] \<Rightarrow> None | g # gs \<Rightarrow> Some (fold min gs g))"

text \<open>The opening of the document, up to the end of the \<open>post\<close> tag.\<close>

definition post_element_open :: "resolver \<Rightarrow> upload_request \<Rightarrow> lookup_result_entry list \<Rightarrow> int \<Rightarrow> string" where
  \<open>post_element_open rs rq swr git =
     ''<?xml version="1.0" encoding="utf-8"?>\<newline><post obj="'' @ m_key rq @
     ''" id="'' @ id_str rs (m_key rq) @
     ''" groups="'' @ string_of_nat (length swr) @
     ''" size="'' @ string_of_nat (length (m_content rq)) @
     ''" key="/'' @ string_of_int git @ ''/'' @ m_key rq @ ''">\<newline>''\<close>

text \<open>
  \<^verbatim>\<open>req_upload::on_finished\<close>: the error log lines and the reply; \<open>None\<close> is the
  undefined behaviour of an empty group list on the success path. The informational
  log line of the success path, which carries the elapsed time, is left out.
\<close>

definition req_upload_on_finished ::
  "resolver \<Rightarrow> upload_request \<Rightarrow> lookup_result_entry list \<Rightarrow> error_info \<Rightarrow> (string list \<times> reply) option" where
  \<open>req_upload_on_finished rs rq swr error =
     (let good_groups = good_groups_of swr
      in if is_error error
         then
           (let all_groups = sort (session_groups rq);
                good_groups = sort good_groups;
                bad_groups = set_difference all_groups good_groups
            in Some
                ([''good groups: ['' @ join_groups good_groups @ '']; all groups: ['' @
                    join_groups all_groups @ '']'',
                  ''Upload finish ERROR: '' @ err_message error @ ''; wrote into groups: ['' @
                    join_groups good_groups @ '']; cannot write into: ['' @ join_groups bad_groups @ '']''],
                 send_reply_code 500))
         else
           (case min_element (session_groups rq) of
              None \<Rightarrow> None
            | Some git \<Rightarrow>
                (let oss = post_element_open rs rq swr git;
                     (oss, written) = complete_loop rs (sign_port rq) swr (oss, 0);
                     res_str = oss @ ''<written>'' @ string_of_nat written @ ''</written>\<newline></post>''
                 in Some ([],
                      \<lparr>code = 200,
                       headers = headers_set ''Content-Type'' ''text/plain''
                                   (headers_set ''Content-Length'' (string_of_nat (length res_str)) []),
                       body = res_str\<rparr>))))\<close>

section \<open>Get: completion\<close>

text \<open>
  One entry of a read result: the user flags of its I/O attribute and the bytes read.
\<close>

record read_result_entry =
  io_user_flags :: "64 word"
  rr_file :: string

text \<open>
  The broken-down time of the C library, and what the completion takes from outside
  this file: \<^verbatim>\<open>data_container_t::unpack\<close> (an exception is \<open>Inl\<close>), \<^verbatim>\<open>gmtime_r\<close> (\<open>None\<close>
  is the null pointer it returns when the year does not fit \<^verbatim>\<open>tm_year\<close>) and the string
  that \<^verbatim>\<open>strftime\<close> writes with \<^verbatim>\<open>"%a, %d %b %Y %T %Z"\<close>.
\<close>

record tm =
  tm_sec :: int
  tm_min :: int
  tm_hour :: int
  tm_mday :: int
  tm_mon :: int
  tm_year :: int
  tm_wday :: int
  tm_yday :: int
  tm_isdst :: int

record get_codec =
  unpack :: "string \<Rightarrow> bool \<Rightarrow> error + data_container_t"
  gmtime_r :: "64 word \<Rightarrow> tm option"
  strftime :: "tm \<Rightarrow> string"

text \<open>The flag handed to \<^verbatim>\<open>unpack\<close>: set from the query, then forced by the user flags.\<close>

definition embeded_flag :: "(string \<times> string) list \<Rightarrow> read_result_entry \<Rightarrow> bool" where
  "embeded_flag m_query_list rr =
     (let embeded = has_item m_query_list ''embed'' \<or> has_item m_query_list ''embed_timestamp'';
          embeded = (if io_user_flags rr AND UF_EMBEDS \<noteq> 0 then True else embeded)
      in embeded)"

text \<open>
  \<^verbatim>\<open>req_get::on_finished\<close>. \<open>None\<close> is undefined behaviour, after which no reply is
  sent: \<^verbatim>\<open>srr.front()\<close> on an empty result, and \<^verbatim>\<open>strftime\<close> reading through the null
  pointer that \<^verbatim>\<open>gmtime_r\<close> returned, which the handler passes on unchecked. An
  exception of \<^verbatim>\<open>unpack\<close> ends in \<^verbatim>\<open>send_reply(500)\<close>.
\<close>

definition req_get_on_finished ::
  "get_codec \<Rightarrow> (string \<times> string) list \<Rightarrow> read_result_entry list \<Rightarrow> error_info \<Rightarrow> string option \<Rightarrow> reply option" where
  "req_get_on_finished cd m_query_list srr error if_modified_since =
     (if is_error error
      then Some (send_reply_code (if err_code error = - ENOENT then 404 else 500))
      else
        (case srr of
           [] \<Rightarrow> None
         | rr # _ \<Rightarrow>
             (case unpack cd (rr_file rr) (embeded_flag m_query_list rr) of
                Inl e \<Rightarrow> Some (send_reply_code 500)
              | Inr dc \<Rightarrow>
                  (let finish = (\<lambda>hs.
                         let res_str = data dc
                         in Some \<lparr>code = 200,
                                  headers = headers_set ''Content-Type'' ''text/plain''
                                    (headers_set ''Content-Length'' (string_of_nat (length res_str)) hs),
                                  body = res_str\<rparr>)
                   in case embed_timestamp dc of
                        None \<Rightarrow> finish []
                      | Some ts \<Rightarrow>
                          (let timestamp = tv_sec ts
                           in case gmtime_r cd timestamp of
                                None \<Rightarrow> None
                              | Some tmp \<Rightarrow>
                                  (let ts_str = strftime cd tmp
                                   in if if_modified_since \<noteq> None \<and> the if_modified_since = ts_str
                                      then Some (send_reply_code 304)
                                      else finish (headers_set ''Last-Modified'' ts_str [])))))))"

section \<open>Download info: completion\<close>

text \<open>
  The loop of \<^verbatim>\<open>req_download_info::on_finished\<close>: the first entry without an error
  of its own decides the reply; an exception of \<^verbatim>\<open>host\<close> ends in \<^verbatim>\<open>send_reply(500)\<close>;
  with no such entry the reply is 503.
\<close>

fun download_info_loop :: "resolver \<Rightarrow> string \<Rightarrow> lookup_result_entry list \<Rightarrow> reply" where
  \<open>download_info_loop rs port [] = send_reply_code 503\<close>
| \<open>download_info_loop rs port (it # slr) =
     (if \<not> is_error (entry_error it)
      then
        (let oss = ''<?xml version="1.0" encoding="utf-8"?>'';
             region = ''-1'';
             entry = new_lookup_result it port;
             oss = oss @ ''<download-info>''
         in case host rs entry of
              (Inl e, entry) \<Rightarrow> send_reply_code 500
            | (Inr h, entry) \<Rightarrow>
                (let oss = oss @ ''<host>'' @ h @ ''</host>'';
                     (p, entry) = path entry;
                     oss = oss @ ''<path>'' @ p @ ''</path>'';
                     oss = oss @ ''<region>'' @ region @ ''</region>'';
                     oss = oss @ ''</download-info>''
                 in \<lparr>code = 200,
                     headers = headers_set ''Content-Type'' ''text/xml''
                                 (headers_set ''Content-Length'' (string_of_nat (length oss)) []),
                     body = oss\<rparr>))
      else download_info_loop rs port slr)\<close>

definition req_download_info_on_finished ::
  "resolver \<Rightarrow> string \<Rightarrow> lookup_result_entry list \<Rightarrow> error_info \<Rightarrow> reply" where
  "req_download_info_on_finished rs port slr error =
     (if is_error error
      then send_reply_code (if err_code error = - ENOENT then 404 else 500)
      else download_info_loop rs port slr)"

section \<open>Cache\<close>

text \<open>The four tables of the balancer, as the JSON text it renders for each.\<close>

record mastermind_t =
  json_group_weights :: string
  json_symmetric_groups :: string
  json_bad_groups :: string
  json_cache_groups :: string

text \<open>\<^verbatim>\<open>req_cache::on_request\<close>; \<^verbatim>\<open>std::endl\<close> writes a newline.\<close>

definition req_cache_on_request :: "mastermind_t \<Rightarrow> http_request \<Rightarrow> reply" where
  \<open>req_cache_on_request mm req =
     (let query_list = query req;
          g = False;
          oss = ''{\<newline>'';
          (oss, g) = (if has_item query_list ''group-weights''
                      then (oss @ ''"group-weights" : '' @ json_group_weights mm, True)
                      else (oss, g));
          (oss, g) = (if has_item query_list ''symmetric-groups''
                      then ((if g then oss @ '',\<newline>'' else oss) @
                            ''"symmetric-groups" : '' @ json_symmetric_groups mm, True)
                      else (oss, g));
          (oss, g) = (if has_item query_list ''bad-groups''
                      then ((if g then oss @ '',\<newline>'' else oss) @
                            ''"bad-groups" : '' @ json_bad_groups mm, True)
                      else (oss, g));
          (oss, g) = (if has_item query_list ''cache-groups''
                      then ((if g then oss @ '',\<newline>'' else oss) @
                            ''"cache-groups" : '' @ json_cache_groups mm, True)
                      else (oss, g));
          oss = (if g then oss @ ''\<newline>'' else oss);
          oss = oss @ ''}\<newline>'';
          res_str = oss
      in \<lparr>code = 200,
          headers = headers_set ''Content-Type'' ''text/plain''
                      (headers_set ''Content-Length'' (string_of_nat (length res_str)) []),
          body = res_str\<rparr>)\<close>

text \<open>
  The reading of the cache body used to state its shape: the named fields whose flag
  is in the query, taken in the fixed order, joined by a comma and a newline.
\<close>

definition cache_fields :: "mastermind_t \<Rightarrow> (string \<times> string) list" where
  "cache_fields mm =
     [(''group-weights'', json_group_weights mm),
      (''symmetric-groups'', json_symmetric_groups mm),
      (''bad-groups'', json_bad_groups mm),
      (''cache-groups'', json_cache_groups mm)]"

definition render_field :: "string \<times> string \<Rightarrow> string" where
  \<open>render_field f = ''"'' @ fst f @ ''" : '' @ snd f\<close>

fun join_fields :: "string list \<Rightarrow> string" where
  "join_fields [] = []"
| "join_fields [f] = f"
| "join_fields (f # f' # fs) = f @ '',\<newline>'' @ join_fields (f' # fs)"

definition requested_fields :: "mastermind_t \<Rightarrow> (string \<times> string) list \<Rightarrow> (string \<times> string) list" where
  "requested_fields mm query_list = filter (\<lambda>f. has_item query_list (fst f)) (cache_fields mm)"

section \<open>Namespace registry\<close>

text \<open>
  A \<^verbatim>\<open>rapidjson\<close> value. \<^verbatim>\<open>HasMember\<close>, \<^verbatim>\<open>operator[]\<close> and the member iteration assert
  that the value is an object, \<^verbatim>\<open>GetInt\<close> that it is an integer, \<^verbatim>\<open>GetString\<close> that it
  is a string; a failed assertion is the error \<open>Assertion_failed\<close>.
\<close>

datatype json =
    JNull
  | JBool bool
  | JInt int
  | JString string
  | JArray "json list"
  | JObject "(string \<times> json) list"

definition HasMember :: "json \<Rightarrow> string \<Rightarrow> error + bool" where
  "HasMember v n = (case v of JObject ms \<Rightarrow> Inr (n \<in> fst ` set ms) | _ \<Rightarrow> Inl Assertion_failed)"

definition member :: "json \<Rightarrow> string \<Rightarrow> error + json" where
  "member v n =
     (case v of
        JObject ms \<Rightarrow> (case map_of ms n of Some x \<Rightarrow> Inr x | None \<Rightarrow> Inl Assertion_failed)
      | _ \<Rightarrow> Inl Assertion_failed)"

definition GetInt :: "json \<Rightarrow> error + int" where
  "GetInt v = (case v of JInt i \<Rightarrow> Inr i | _ \<Rightarrow> Inl Assertion_failed)"

definition GetString :: "json \<Rightarrow> error + string" where
  "GetString v = (case v of JString s \<Rightarrow> Inr s | _ \<Rightarrow> Inl Assertion_failed)"

definition apostrophe :: string where
  "apostrophe = [CHR 0x27]"

text \<open>The body of the loop of \<^verbatim>\<open>generate_namespaces\<close>: one member to one namespace.\<close>

definition namespace_of_member :: "string \<Rightarrow> json \<Rightarrow> error + namespace_t" where
  "namespace_of_member n v =
     (case HasMember v ''groups-count'' of
        Inl e \<Rightarrow> Inl e
      | Inr False \<Rightarrow> Inl (Runtime_error (''Missing '' @ apostrophe @ ''groups-count'' @ apostrophe @ '' in '' @
                      apostrophe @ n @ apostrophe @ '' namespace''))
      | Inr True \<Rightarrow>
          (case HasMember v ''success-copies-num'' of
             Inl e \<Rightarrow> Inl e
           | Inr False \<Rightarrow> Inl (Runtime_error (''Missing '' @ apostrophe @ ''success-copies-num'' @ apostrophe @ '' in '' @
                           apostrophe @ n @ apostrophe @ '' namespace''))
           | Inr True \<Rightarrow>
               (case member v ''groups-count'' of
                  Inl e \<Rightarrow> Inl e
                | Inr gc \<Rightarrow>
                    (case GetInt gc of
                       Inl e \<Rightarrow> Inl e
                     | Inr gcount \<Rightarrow>
                         (case member v ''success-copies-num'' of
                            Inl e \<Rightarrow> Inl e
                          | Inr sv \<Rightarrow>
                              (case GetString sv of
                                 Inl e \<Rightarrow> Inl e
                               | Inr scn \<Rightarrow>
                                   (let item = namespace_t_default\<lparr>name := n, groups_count := gcount\<rparr>
                                    in if scn = ''all'' then Inr (item\<lparr>result_checker := Some All\<rparr>)
                                       else if scn = ''quorum'' then Inr (item\<lparr>result_checker := Some Quorum\<rparr>)
                                       else if scn = ''any'' then Inr (item\<lparr>result_checker := Some At_least_one\<rparr>)
                                       else Inl (Runtime_error
                                              (''Unknown type of success-copies-num '' @ apostrophe @ scn @ apostrophe @
                                               '' in '' @ apostrophe @ n @ apostrophe @
                                               '' namespace. Allowed types: any, quorum, all.'')))))))))"

text \<open>
  The loop over the members, in order; \<^verbatim>\<open>std::map::insert\<close> keeps the entry that is
  already stored under a name.
\<close>

fun namespaces_loop :: "(string \<times> json) list \<Rightarrow> (string \<rightharpoonup> namespace_t) \<Rightarrow> error + (string \<rightharpoonup> namespace_t)" where
  "namespaces_loop [] res = Inr res"
| "namespaces_loop ((n, v) # ms) res =
     (case namespace_of_member n v of
        Inl e \<Rightarrow> Inl e
      | Inr item \<Rightarrow>
          namespaces_loop ms (if res (name item) = None then res(name item \<mapsto> item) else res))"

definition generate_namespaces :: "json \<Rightarrow> error + (string \<rightharpoonup> namespace_t)" where
  "generate_namespaces config =
     (case HasMember config ''namespaces'' of
        Inl e \<Rightarrow> Inl e
      | Inr False \<Rightarrow> Inl (Runtime_error ''You should set a dict of namespaces'')
      | Inr True \<Rightarrow>
          (case member config ''namespaces'' of
             Inl e \<Rightarrow> Inl e
           | Inr namespaces \<Rightarrow>
               (case namespaces of
                  JObject ms \<Rightarrow> namespaces_loop ms Map.empty
                | _ \<Rightarrow> Inl Assertion_failed)))"

section \<open>Sample inputs\<close>

text \<open>
  An upload to three groups, a result set with an entry for each of them (the third
  failed), and the error a policy-level failure reports. The resolver knows the
  name of the first node only; the address of the second is of a family that cannot
  be printed, the third has the numeric form \<open>192.0.2.3\<close> and no name.
\<close>

definition sample_resolver :: resolver where
  "sample_resolver =
     \<lparr>reverse_dns = (\<lambda>a. if a = ''node-1'' then Some ''storage01.example.net'' else None),
      numeric_host = (\<lambda>a. if a = ''node-1'' then Some ''192.0.2.1''
                           else if a = ''node-3'' then Some ''192.0.2.3'' else None),
      dnet_server_convert_dnet_addr_raw = (\<lambda>a. a @ '':1025''),
      id_str = (\<lambda>k. ''00ff'')\<rparr>"

definition no_error :: error_info where
  "no_error = \<lparr>err_code = 0, err_message = []\<rparr>"

definition write_error :: error_info where
  "write_error = \<lparr>err_code = - 5, err_message = ''insufficient results count''\<rparr>"

definition entry_1 :: lookup_result_entry where
  "entry_1 =
     \<lparr>cmd_group_id = 1, cmd_status = 0, storage_address = ''node-1'', info_offset = 10,
      info_size = 3, file_path = ''/srv/1/data-0.0'', entry_error = no_error\<rparr>"

definition entry_2 :: lookup_result_entry where
  "entry_2 =
     \<lparr>cmd_group_id = 2, cmd_status = 0, storage_address = ''node-2'', info_offset = 20,
      info_size = 3, file_path = ''/srv/2/data-0.0'', entry_error = no_error\<rparr>"

definition entry_3 :: lookup_result_entry where
  "entry_3 =
     \<lparr>cmd_group_id = 3, cmd_status = - 5, storage_address = ''node-3'', info_offset = 0,
      info_size = 0, file_path = [], entry_error = write_error\<rparr>"

definition foo_upload :: upload_request where
  "foo_upload = \<lparr>m_key = ''file'', m_content = ''abc'', session_groups = [2, 1, 3], sign_port = []\<rparr>"

text \<open>
  Read results whose user flags mark embeds, with a codec that takes the first two
  bytes as the embed region when asked to: \<open>FF\<close> stands for the time stamp
  \<open>2^63 - 1\<close>, anything else for the epoch. The library is given on the time stamps
  used here: \<^verbatim>\<open>gmtime_r\<close> converts 0 and 1 and returns the null pointer for \<open>2^63 - 1\<close>,
  whose year does not fit \<^verbatim>\<open>tm_year\<close>. Then a server that parses that number, and
  three cache requests.
\<close>

definition epoch_tm :: tm where
  "epoch_tm =
     \<lparr>tm_sec = 0, tm_min = 0, tm_hour = 0, tm_mday = 1, tm_mon = 0, tm_year = 70, tm_wday = 4,
      tm_yday = 0, tm_isdst = 0\<rparr>"

definition sample_codec :: get_codec where
  "sample_codec =
     \<lparr>unpack = (\<lambda>d e. if e
                       then (if length d < 2 then Inl (Runtime_error ''malformed container'')
                             else Inr \<lparr>data = drop 2 d,
                                      embed_timestamp =
                                        Some \<lparr>tv_sec = (if take 2 d = ''FF'' then 9223372036854775807 else 0),
                                              tv_nsec = 0\<rparr>\<rparr>)
                       else Inr \<lparr>data = d, embed_timestamp = None\<rparr>),
      gmtime_r = (\<lambda>t. if t = 0 then Some epoch_tm
                       else if t = 1 then Some (epoch_tm\<lparr>tm_sec := 1\<rparr>) else None),
      strftime = (\<lambda>t. if tm_sec t = 0 then ''Thu, 01 Jan 1970 00:00:00 GMT''
                       else ''Thu, 01 Jan 1970 00:00:01 GMT'')\<rparr>"

definition sample_read :: read_result_entry where
  "sample_read = \<lparr>io_user_flags = 1, rr_file = ''XXabc''\<rparr>"

definition far_future_read :: read_result_entry where
  "far_future_read = \<lparr>io_user_flags = 1, rr_file = ''FFabc''\<rparr>"

definition far_future_server :: server where
  "far_future_server =
     bar_server\<lparr>lexical_cast_uint64 :=
       (\<lambda>s. if s = ''9223372036854775807'' then Some 9223372036854775807 else None)\<rparr>"


definition sample_mastermind :: mastermind_t where
  \<open>sample_mastermind =
     \<lparr>json_group_weights = ''{"1":2}'', json_symmetric_groups = ''{}'',
      json_bad_groups = ''[7]'', json_cache_groups = ''{}''\<rparr>\<close>

definition cache_request :: http_request where
  "cache_request =
     \<lparr>url = ''/cache?group-weights&bad-groups'',
      query = [(''group-weights'', []), (''bad-groups'', [])], req_headers = []\<rparr>"

definition cache_request_swapped :: http_request where
  "cache_request_swapped =
     \<lparr>url = ''/cache?bad-groups&group-weights'',
      query = [(''bad-groups'', []), (''group-weights'', [])], req_headers = []\<rparr>"

definition cache_request_plain :: http_request where
  "cache_request_plain = \<lparr>url = ''/cache'', query = [], req_headers = []\<rparr>"

text \<open>
  Configurations: one whose namespace \<open>foo\<close> asks for zero groups, one with two
  well-formed namespaces, and three with a malformed entry beside a good one.
\<close>

definition stored :: "error + (string \<rightharpoonup> namespace_t) \<Rightarrow> string \<Rightarrow> namespace_t option" where
  "stored loaded n = (case loaded of Inl e \<Rightarrow> None | Inr res \<Rightarrow> res n)"

definition zero_groups_config :: json where
  "zero_groups_config =
     JObject [(''namespaces'',
       JObject [(''foo'', JObject [(''groups-count'', JInt 0), (''success-copies-num'', JString ''all'')])])]"

definition zero_groups_namespace :: namespace_t where
  "zero_groups_namespace =
     \<lparr>name = ''foo'', groups_count = 0, result_checker = Some All, auth_key = []\<rparr>"

definition good_entry :: json where
  "good_entry = JObject [(''groups-count'', JInt 3), (''success-copies-num'', JString ''quorum'')]"

definition good_config :: json where
  "good_config = JObject [(''namespaces'', JObject [(''foo'', good_entry)])]"

definition good_namespace :: namespace_t where
  "good_namespace = \<lparr>name = ''foo'', groups_count = 3, result_checker = Some Quorum, auth_key = []\<rparr>"

definition no_count_entry :: json where
  "no_count_entry = JObject [(''success-copies-num'', JString ''any'')]"

definition no_copies_entry :: json where
  "no_copies_entry = JObject [(''groups-count'', JInt 2)]"

definition bad_copies_entry :: json where
  "bad_copies_entry = JObject [(''groups-count'', JInt 2), (''success-copies-num'', JString ''most'')]"

definition config_with :: "json \<Rightarrow> json" where
  "config_with entry = JObject [(''namespaces'', JObject [(''foo'', good_entry), (''bar'', entry)])]"

section \<open>Properties\<close>

subsection \<open>Strings\<close>

lemma unat_minus_one_64: "unat (- 1 :: 64 word) = 18446744073709551615"
  by (simp add: unsigned_minus_1_eq_mask mask_eq_exp_minus_1)

lemma index_of_None: "index_of c s = None \<longleftrightarrow> c \<notin> set s"
  by (induction s) auto

lemma index_of_Some_less: "index_of c s = Some i \<Longrightarrow> i < length s"
  by (induction s arbitrary: i) (auto split: if_splits)

lemma str_find_absent: "c \<notin> set s \<Longrightarrow> str_find s c 0 = npos"
  by (simp add: str_find_def index_of_None[THEN iffD2])

lemma unat_succ_le: "unat (w + 1 :: 64 word) \<le> unat w + 1"
  by (metis mod_less_eq_dividend unat_1 unat_word_ariths(1))

lemma unat_of_nat_le: "unat (of_nat n :: 64 word) \<le> n"
  by (simp add: unat_of_nat)

text \<open>The position after the second slash is never beyond the end of the string.\<close>

lemma str_find_begin_le: "unat (str_find s c 1 + 1) \<le> length s"
proof (cases "index_of c (drop 1 s)")
  case None
  then show ?thesis by (simp add: str_find_def npos_def)
next
  case (Some i)
  define w :: "64 word" where "w = of_nat (unat (1 :: 64 word) + i)"
  have "i < length s - 1" using Some index_of_Some_less by fastforce
  moreover have "unat (w + 1) \<le> unat w + 1"
    by (rule unat_succ_le)
  moreover have "unat w \<le> 1 + i"
    unfolding w_def using unat_of_nat_le[of "1 + i"] by simp
  moreover have "str_find s c 1 = w"
    using Some by (simp add: str_find_def w_def)
  ultimately show ?thesis by simp
qed

subsection \<open>Namespace resolution\<close>

lemma get_filename_no_dash:
  assumes "CHR ''-'' \<notin> set (url req)"
  shows "\<exists>filename. get_filename req = Inr (filename, ''default'')"
  using str_find_begin_le[of "url req" "CHR ''/''"] str_find_absent[OF assms]
  by (simp add: get_filename_def substr_def Let_def)

lemma get_file_info_absent:
  assumes "get_filename req = Inr (filename, ns_name)" and "registry ns_name = None"
  shows "get_file_info registry req = Inr (filename, namespace_t_default)"
  using assms by (simp add: get_file_info_def)

text \<open>
  C10: a URL string without \<open>-\<close> resolves to the namespace name \<open>default\<close>; when the
  resolved name is not in the registry, \<^verbatim>\<open>get_file_info\<close> gives the value-initialised
  namespace, whose name is empty, and both the upload and the delete dispatch then
  answer 400 and do nothing else.
\<close>

theorem default_namespace_and_unresolved_400:
  "(CHR ''-'' \<notin> set (url req) \<longrightarrow> (\<exists>filename. get_filename req = Inr (filename, ''default''))) \<and>
   (\<forall>filename ns_name.
      get_filename req = Inr (filename, ns_name) \<and> m_namespaces srv ns_name = None \<longrightarrow>
        get_file_info (m_namespaces srv) req = Inr (filename, namespace_t_default) \<and>
        name namespace_t_default = [] \<and>
        req_upload_on_request srv req buffer = [Send_reply (send_reply_code 400)] \<and>
        req_delete_on_request srv req = [Send_reply (send_reply_code 400)])"
proof (intro conjI impI allI)
  assume "CHR ''-'' \<notin> set (url req)"
  then show "\<exists>filename. get_filename req = Inr (filename, ''default'')"
    by (rule get_filename_no_dash)
next
  fix filename ns_name
  assume a: "get_filename req = Inr (filename, ns_name) \<and> m_namespaces srv ns_name = None"
  then have fi: "get_file_info (m_namespaces srv) req = Inr (filename, namespace_t_default)"
    by (simp add: get_file_info_absent)
  show "get_file_info (m_namespaces srv) req = Inr (filename, namespace_t_default)"
    by (rule fi)
  show "name namespace_t_default = []"
    by (simp add: namespace_t_default_def)
  show "req_upload_on_request srv req buffer = [Send_reply (send_reply_code 400)]"
    by (simp add: req_upload_on_request_def fi namespace_t_default_def)
  show "req_delete_on_request srv req = [Send_reply (send_reply_code 400)]"
    by (simp add: req_delete_on_request_def fi namespace_t_default_def)
qed

lemma get_filename_delete_default_request:
  "get_filename delete_default_request = Inr (''1/file'', ''default'')"
  by (simp add: delete_default_request_def get_filename_def str_find_def substr_def npos_def Let_def)

theorem default_namespace_and_unresolved_400_witness:
  "CHR ''-'' \<notin> set (url delete_default_request) \<and>
   get_filename delete_default_request = Inr (''1/file'', ''default'') \<and>
   m_namespaces bar_server ''default'' = None \<and>
   get_file_info (m_namespaces bar_server) delete_default_request = Inr (''1/file'', namespace_t_default) \<and>
   req_upload_on_request bar_server delete_default_request ''abc'' = [Send_reply (send_reply_code 400)] \<and>
   req_delete_on_request bar_server delete_default_request = [Send_reply (send_reply_code 400)]"
proof -
  have d: "CHR ''-'' \<notin> set (url delete_default_request)"
    by (simp add: delete_default_request_def)
  have r: "m_namespaces bar_server ''default'' = None"
    by (simp add: bar_server_def)
  show ?thesis
    using default_namespace_and_unresolved_400 [of delete_default_request bar_server "''abc''"]
      d r get_filename_delete_default_request
    by simp
qed

subsection \<open>Delete dispatch and the credential check\<close>

lemma get_filename_delete_bar_request:
  "get_filename delete_bar_request = Inr (''1/file'', ''bar'')"
  by (simp add: delete_bar_request_def get_filename_def str_find_def substr_def npos_def Let_def)

lemma get_file_info_delete_bar_request:
  "get_file_info (m_namespaces bar_server) delete_bar_request = Inr (''1/file'', bar_namespace)"
  by (simp add: get_file_info_def get_filename_delete_bar_request bar_server_def)

lemma delete_groups_and_remove_bar:
  "delete_groups_and_remove bar_server ''1/file'' bar_namespace =
     [Set_groups [1, 2], Set_filter_all, Remove ''bar.file'']"
  by (simp add: delete_groups_and_remove_def str_find_def substr_def npos_def unat_minus_one_64
      bar_server_def bar_namespace_def Let_def)

text \<open>The later handler stops at the 401: the reply is its only effect.\<close>

lemma req_delete_on_request_revised_unauthorized:
  assumes "get_namespace (url req) ''/delete'' = Inr ns"
    and "\<not> check_basic_auth srv (name ns) (auth_key ns) (headers_get (req_headers req) ''Authorization'')"
  shows "req_delete_on_request_revised get_namespace prepare_session srv req =
           [Send_reply (unauthorized_reply (name ns))]"
  using assms by (simp add: req_delete_on_request_revised_def Let_def)

text \<open>
  C1: a delete request on a namespace that requires a credential, with a missing or
  wrong \<^verbatim>\<open>Authorization\<close> header, is to be answered 401 with
  \<^verbatim>\<open>WWW-Authenticate: Basic realm="<namespace>"\<close> and nothing is to be issued to the
  storage. The handler of \<^verbatim>\<open>delete.cpp\<close> sends that reply but does not return after
  it: for \<^verbatim>\<open>/delete-bar/1/file\<close> without the header, on a server whose namespace \<open>bar\<close>
  has a secret, it goes on to set the groups and to issue the remove.
\<close>

theorem delete_unauthorized_still_removes:
  "\<not> check_basic_auth bar_server (name bar_namespace) (auth_key bar_namespace)
        (headers_get (req_headers delete_bar_request) ''Authorization'') \<and>
   req_delete_on_request bar_server delete_bar_request =
     [Send_reply (unauthorized_reply ''bar''), Set_groups [1, 2], Set_filter_all, Remove ''bar.file''] \<and>
   list_ex is_storage_operation (req_delete_on_request bar_server delete_bar_request)"
proof -
  have auth: "\<not> check_basic_auth bar_server (name bar_namespace) (auth_key bar_namespace)
        (headers_get (req_headers delete_bar_request) ''Authorization'')"
    by (simp add: bar_server_def bar_namespace_def delete_bar_request_def headers_get_def)
  have run: "req_delete_on_request bar_server delete_bar_request =
     [Send_reply (unauthorized_reply ''bar''), Set_groups [1, 2], Set_filter_all, Remove ''bar.file'']"
    using auth
    by (simp add: req_delete_on_request_def get_file_info_delete_bar_request
        delete_groups_and_remove_bar)
       (simp add: bar_namespace_def)
  show ?thesis
    using auth run by simp
qed

subsection \<open>Delete completion\<close>

text \<open>
  C5: a delete completion whose error is the storage ``not found'' error (code
  \<open>- ENOENT\<close>) is answered 404, one with any other error is answered 500, and one
  without error is answered 200 with an empty body.
\<close>

theorem delete_completion_codes:
  "(err_code error = - ENOENT \<longrightarrow> code (req_delete_on_finished error) = 404) \<and>
   (is_error error \<and> err_code error \<noteq> - ENOENT \<longrightarrow> code (req_delete_on_finished error) = 500) \<and>
   (\<not> is_error error \<longrightarrow>
      code (req_delete_on_finished error) = 200 \<and> body (req_delete_on_finished error) = [])"
  by (simp add: req_delete_on_finished_def is_error_def send_reply_code_def ENOENT_def)

theorem delete_completion_codes_witness:
  "code (req_delete_on_finished \<lparr>err_code = - 2, err_message = ''No such file or directory''\<rparr>) = 404 \<and>
   code (req_delete_on_finished \<lparr>err_code = - 110, err_message = ''Connection timed out''\<rparr>) = 500 \<and>
   code (req_delete_on_finished \<lparr>err_code = 0, err_message = []\<rparr>) = 200 \<and>
   body (req_delete_on_finished \<lparr>err_code = 0, err_message = []\<rparr>) = []"
  using delete_completion_codes [of "\<lparr>err_code = - 2, err_message = ''No such file or directory''\<rparr>"]
    delete_completion_codes [of "\<lparr>err_code = - 110, err_message = ''Connection timed out''\<rparr>"]
    delete_completion_codes [of "\<lparr>err_code = 0, err_message = []\<rparr>"]
  by (simp add: is_error_def ENOENT_def)

subsection \<open>Upload completion\<close>











lemma complete_loop_eq:
  "complete_loop rs port swr (oss, written) =
     (oss @ concat (map (complete_element rs port) swr),
      written + length (filter (\<lambda>e. cmd_status e = 0) swr))"
  by (induction swr arbitrary: oss written) (simp_all add: status_def new_lookup_result_def)

lemma complete_element_eq:
  \<open>complete_element rs port entry =
     ''<complete addr="'' @ dnet_server_convert_dnet_addr_raw rs (storage_address entry) @
     ''" path="'' @ file_path entry @
     ''" group="'' @ string_of_int (cmd_group_id entry) @
     ''" status="'' @ string_of_int (cmd_status entry) @ ''"/>\<newline>''\<close>
  by (simp add: complete_element_def new_lookup_result_def addr_def full_path_def group_id_def
      status_def Let_def)

lemma min_element_nonempty: "groups \<noteq> [] \<Longrightarrow> \<exists>git. min_element groups = Some git"
  by (cases groups) (simp_all add: min_element_def)

lemma content_headers:
  "headers_set ''Content-Type'' t (headers_set ''Content-Length'' l []) =
     [(''Content-Length'', l), (''Content-Type'', t)]"
  by (simp add: headers_set_def)

lemma req_upload_on_finished_success:
  assumes "\<not> is_error error" and "min_element (session_groups rq) = Some git"
  shows \<open>req_upload_on_finished rs rq swr error =
     Some ([],
       \<lparr>code = 200,
        headers =
          [(''Content-Length'',
            string_of_nat (length
              ((post_element_open rs rq swr git @ concat (map (complete_element rs (sign_port rq)) swr)) @
               ''<written>'' @ string_of_nat (0 + length (filter (\<lambda>entry. cmd_status entry = 0) swr)) @
               ''</written>\<newline></post>''))),
           (''Content-Type'', ''text/plain'')],
        body =
          (post_element_open rs rq swr git @ concat (map (complete_element rs (sign_port rq)) swr)) @
          ''<written>'' @ string_of_nat (0 + length (filter (\<lambda>entry. cmd_status entry = 0) swr)) @
          ''</written>\<newline></post>''\<rparr>)\<close>
  unfolding req_upload_on_finished_def Let_def
  by (simp only: assms if_False option.case complete_loop_eq prod.case content_headers)

text \<open>
  C3, as the code has it: an upload completion without the policy-level error, on a
  session that has groups, is answered 200 with the document whose \<open>complete\<close>
  elements are, in order, one for each entry of the result set (not one for each
  group of the session), carrying that entry's address, path, group and status,
  followed by a \<open>written\<close> element with the number of entries whose status is 0.
\<close>

theorem upload_success_document:
  assumes "\<not> is_error error" and "session_groups rq \<noteq> []"
  shows \<open>\<exists>git res_str.
           min_element (session_groups rq) = Some git \<and>
           res_str =
             post_element_open rs rq swr git @
             concat (map (complete_element rs (sign_port rq)) swr) @
             ''<written>'' @ string_of_nat (length (filter (\<lambda>entry. cmd_status entry = 0) swr)) @
             ''</written>\<newline></post>'' \<and>
           (\<forall>entry. complete_element rs (sign_port rq) entry =
              ''<complete addr="'' @ dnet_server_convert_dnet_addr_raw rs (storage_address entry) @
              ''" path="'' @ file_path entry @
              ''" group="'' @ string_of_int (cmd_group_id entry) @
              ''" status="'' @ string_of_int (cmd_status entry) @ ''"/>\<newline>'') \<and>
           req_upload_on_finished rs rq swr error =
             Some ([],
                   \<lparr>code = 200,
                    headers = [(''Content-Length'', string_of_nat (length res_str)),
                               (''Content-Type'', ''text/plain'')],
                    body = res_str\<rparr>)\<close>
proof -
  obtain git where g: "min_element (session_groups rq) = Some git"
    using min_element_nonempty[OF assms(2)] by blast
  show ?thesis
    using g complete_element_eq[of rs "sign_port rq"]
    by (simp add: req_upload_on_finished_success[OF assms(1) g])
qed


theorem upload_success_document_witness:
  "\<not> is_error no_error \<and> session_groups foo_upload \<noteq> [] \<and>
   (\<exists>res_str. req_upload_on_finished sample_resolver foo_upload [entry_1, entry_2, entry_3] no_error =
      Some ([],
            \<lparr>code = 200,
             headers = [(''Content-Length'', string_of_nat (length res_str)),
                        (''Content-Type'', ''text/plain'')],
             body = res_str\<rparr>))"
proof -
  have h1: "\<not> is_error no_error"
    by (simp add: is_error_def no_error_def)
  have h2: "session_groups foo_upload \<noteq> []"
    by (simp add: foo_upload_def)
  from upload_success_document [OF h1 h2, of sample_resolver "[entry_1, entry_2, entry_3]"]
  have "\<exists>res_str. req_upload_on_finished sample_resolver foo_upload [entry_1, entry_2, entry_3] no_error =
      Some ([],
            \<lparr>code = 200,
             headers = [(''Content-Length'', string_of_nat (length res_str)),
                        (''Content-Type'', ''text/plain'')],
             body = res_str\<rparr>)"
    by blast
  with h1 h2 show ?thesis by blast
qed

text \<open>
  The quorum scenario: three groups, two entries with status 0 and one failed, no
  policy-level error. The document counts two written and has three
  \<open>complete\<close> elements.
\<close>

lemma string_of_small_nat:
  "string_of_nat 0 = ''0''" "string_of_nat 1 = ''1''" "string_of_nat 2 = ''2''"
  "string_of_nat 3 = ''3''" "string_of_nat 5 = ''5''" "string_of_nat (Suc 0) = ''1''"
  "string_of_nat (Suc (Suc 0)) = ''2''"
  by (simp_all add: string_of_nat.simps)

lemma upload_quorum_scenario:
  \<open>map_option (body \<circ> snd)
     (req_upload_on_finished sample_resolver foo_upload [entry_1, entry_2, entry_3] no_error) =
   Some (''<?xml version="1.0" encoding="utf-8"?>\<newline>'' @
         ''<post obj="file" id="00ff" groups="3" size="3" key="/1/file">\<newline>'' @
         ''<complete addr="node-1:1025" path="/srv/1/data-0.0" group="1" status="0"/>\<newline>'' @
         ''<complete addr="node-2:1025" path="/srv/2/data-0.0" group="2" status="0"/>\<newline>'' @
         ''<complete addr="node-3:1025" path="" group="3" status="-5"/>\<newline>'' @
         ''<written>2</written>\<newline></post>'')\<close>
proof -
  have h: "\<not> is_error no_error"
    by (simp add: is_error_def no_error_def)
  have g: "min_element (session_groups foo_upload) = Some 1"
    by (simp add: min_element_def foo_upload_def)
  have n: "length [entry_1, entry_2, entry_3] = 3" "length (m_content foo_upload) = 3"
    "length (filter (\<lambda>entry. cmd_status entry = 0) [entry_1, entry_2, entry_3]) = 2"
    by (simp_all add: foo_upload_def entry_1_def entry_2_def entry_3_def)
  have p: \<open>post_element_open sample_resolver foo_upload [entry_1, entry_2, entry_3] 1 =
     ''<?xml version="1.0" encoding="utf-8"?>\<newline><post obj="file" id="00ff" groups="3" size="3" key="/1/file">\<newline>''\<close>
    unfolding post_element_open_def n
    by (simp add: foo_upload_def sample_resolver_def string_of_int_def string_of_small_nat)
  have c: \<open>concat (map (complete_element sample_resolver (sign_port foo_upload)) [entry_1, entry_2, entry_3]) =
     ''<complete addr="node-1:1025" path="/srv/1/data-0.0" group="1" status="0"/>\<newline>'' @
     ''<complete addr="node-2:1025" path="/srv/2/data-0.0" group="2" status="0"/>\<newline>'' @
     ''<complete addr="node-3:1025" path="" group="3" status="-5"/>\<newline>''\<close>
    by (simp add: complete_element_eq sample_resolver_def entry_1_def entry_2_def entry_3_def
        string_of_int_def string_of_small_nat)
  show ?thesis
    unfolding req_upload_on_finished_success[OF h g] n p c
    by (simp add: string_of_small_nat)
qed

subsection \<open>Host of a lookup entry\<close>

lemma getnameinfo_no_flags:
  "getnameinfo rs sa 0 =
     (case numeric_host rs sa of
        None \<Rightarrow> None
      | Some num \<Rightarrow> (case reverse_dns rs sa of Some nm \<Rightarrow> Some nm | None \<Rightarrow> Some num))"
  by (simp add: getnameinfo_def split: option.splits)

lemma host_new_lookup_result:
  "fst (host rs (new_lookup_result entry port)) =
     (case getnameinfo rs (storage_address entry) 0 of
        None \<Rightarrow> Inl (Runtime_error ''can not make dns lookup'')
      | Some h \<Rightarrow> Inr (if port = [] then h else h @ '':'' @ port))"
  by (simp add: host_def new_lookup_result_def Let_def split: option.splits)



lemma sample_resolver_nodes:
  "numeric_host sample_resolver (storage_address entry_1) = Some ''192.0.2.1''"
  "reverse_dns sample_resolver (storage_address entry_1) = Some ''storage01.example.net''"
  "numeric_host sample_resolver (storage_address entry_2) = None"
  "numeric_host sample_resolver (storage_address entry_3) = Some ''192.0.2.3''"
  "reverse_dns sample_resolver (storage_address entry_3) = None"
  by (simp_all add: sample_resolver_def entry_1_def entry_2_def entry_3_def)



subsection \<open>Download info completion\<close>

lemma download_info_loop_all_errors:
  "\<forall>e \<in> set slr. is_error (entry_error e) \<Longrightarrow> download_info_loop rs port slr = send_reply_code 503"
  by (induction slr) simp_all

lemma download_info_loop_first:
  "find (\<lambda>e. \<not> is_error (entry_error e)) slr = Some it \<Longrightarrow>
   download_info_loop rs port slr = download_info_loop rs port [it] \<and> \<not> is_error (entry_error it)"
  by (induction slr) (auto split: if_splits)

lemma path_after_host:
  "host rs lr = (r, lr') \<Longrightarrow> fst (path lr') = fst (path lr)"
  by (auto simp: host_def path_def Let_def split: option.splits)

lemma download_info_loop_single:
  assumes "\<not> is_error (entry_error it)"
  shows \<open>download_info_loop rs port [it] =
     (case fst (host rs (new_lookup_result it port)) of
        Inl e \<Rightarrow> send_reply_code 500
      | Inr h \<Rightarrow>
          \<lparr>code = 200,
           headers =
             [(''Content-Length'',
               string_of_nat (length
                 (''<?xml version="1.0" encoding="utf-8"?><download-info><host>'' @ h @ ''</host><path>'' @
                  fst (path (new_lookup_result it port)) @
                  ''</path><region>-1</region></download-info>''))),
              (''Content-Type'', ''text/xml'')],
           body =
             ''<?xml version="1.0" encoding="utf-8"?><download-info><host>'' @ h @ ''</host><path>'' @
             fst (path (new_lookup_result it port)) @
             ''</path><region>-1</region></download-info>''\<rparr>)\<close>
proof (cases "host rs (new_lookup_result it port)")
  case (Pair r lr')
  then have "fst (path lr') = fst (path (new_lookup_result it port))"
    by (rule path_after_host)
  then obtain lr'' where p: "path lr' = (fst (path (new_lookup_result it port)), lr'')"
    by (metis prod.collapse)
  show ?thesis
    using assms Pair p
    by (cases r) (simp_all add: content_headers Let_def)
qed

text \<open>
  C6: a download-info completion without the aggregate error answers from the first
  entry, in result order, that has no error of its own: 200 with the document made
  of that entry's host and path and the region \<open>-1\<close> (or 500 when \<^verbatim>\<open>host\<close> throws for
  that entry); when every entry has an error, the answer is 503.
\<close>

theorem download_info_first_good_entry:
  assumes "\<not> is_error error"
  shows \<open>((\<forall>e \<in> set slr. is_error (entry_error e)) \<longrightarrow>
            req_download_info_on_finished rs port slr error = send_reply_code 503 \<and>
            code (send_reply_code 503) = 503) \<and>
         (\<forall>it. find (\<lambda>e. \<not> is_error (entry_error e)) slr = Some it \<longrightarrow>
            (\<forall>h. fst (host rs (new_lookup_result it port)) = Inr h \<longrightarrow>
               code (req_download_info_on_finished rs port slr error) = 200 \<and>
               body (req_download_info_on_finished rs port slr error) =
                 ''<?xml version="1.0" encoding="utf-8"?><download-info><host>'' @ h @ ''</host><path>'' @
                 fst (path (new_lookup_result it port)) @
                 ''</path><region>-1</region></download-info>'') \<and>
            (\<forall>e. fst (host rs (new_lookup_result it port)) = Inl e \<longrightarrow>
               req_download_info_on_finished rs port slr error = send_reply_code 500))\<close>
proof (intro conjI impI allI)
  assume "\<forall>e \<in> set slr. is_error (entry_error e)"
  then show "req_download_info_on_finished rs port slr error = send_reply_code 503"
    using assms by (simp add: req_download_info_on_finished_def download_info_loop_all_errors)
next
  show "code (send_reply_code 503) = 503"
    by (simp add: send_reply_code_def)
next
  fix it h
  assume f: "find (\<lambda>e. \<not> is_error (entry_error e)) slr = Some it"
    and h: "fst (host rs (new_lookup_result it port)) = Inr h"
  have r: "req_download_info_on_finished rs port slr error = download_info_loop rs port [it]"
    using assms download_info_loop_first[OF f] by (simp add: req_download_info_on_finished_def)
  have g: "\<not> is_error (entry_error it)"
    using download_info_loop_first[OF f] by simp
  show "code (req_download_info_on_finished rs port slr error) = 200"
    unfolding r download_info_loop_single[OF g] h by simp
  show \<open>body (req_download_info_on_finished rs port slr error) =
          ''<?xml version="1.0" encoding="utf-8"?><download-info><host>'' @ h @ ''</host><path>'' @
          fst (path (new_lookup_result it port)) @
          ''</path><region>-1</region></download-info>''\<close>
    unfolding r download_info_loop_single[OF g] h by simp
next
  fix it e
  assume f: "find (\<lambda>e. \<not> is_error (entry_error e)) slr = Some it"
    and h: "fst (host rs (new_lookup_result it port)) = Inl e"
  have r: "req_download_info_on_finished rs port slr error = download_info_loop rs port [it]"
    using assms download_info_loop_first[OF f] by (simp add: req_download_info_on_finished_def)
  have g: "\<not> is_error (entry_error it)"
    using download_info_loop_first[OF f] by simp
  show "req_download_info_on_finished rs port slr error = send_reply_code 500"
    unfolding r download_info_loop_single[OF g] h by simp
qed

theorem download_info_first_good_entry_witness:
  \<open>\<not> is_error no_error \<and>
   is_error (entry_error entry_3) \<and>
   req_download_info_on_finished sample_resolver ''8080'' [entry_3, entry_3] no_error = send_reply_code 503 \<and>
   find (\<lambda>e. \<not> is_error (entry_error e)) [entry_3, entry_1, entry_2] = Some entry_1 \<and>
   fst (host sample_resolver (new_lookup_result entry_1 ''8080'')) = Inr ''storage01.example.net:8080'' \<and>
   body (req_download_info_on_finished sample_resolver ''8080'' [entry_3, entry_1, entry_2] no_error) =
     ''<?xml version="1.0" encoding="utf-8"?><download-info><host>storage01.example.net:8080</host>'' @
     ''<path>/srv/1/data-0.0:10:3</path><region>-1</region></download-info>'' \<and>
   find (\<lambda>e. \<not> is_error (entry_error e)) [entry_3, entry_2, entry_1] = Some entry_2 \<and>
   fst (host sample_resolver (new_lookup_result entry_2 ''8080'')) =
     Inl (Runtime_error ''can not make dns lookup'') \<and>
   req_download_info_on_finished sample_resolver ''8080'' [entry_3, entry_2, entry_1] no_error =
     send_reply_code 500\<close>
proof -
  have n: "\<not> is_error no_error"
    by (simp add: is_error_def no_error_def)
  have e: "is_error (entry_error entry_3)" "\<not> is_error (entry_error entry_1)"
    "\<not> is_error (entry_error entry_2)"
    by (simp_all add: is_error_def entry_1_def entry_2_def entry_3_def no_error_def write_error_def)
  have a: "\<forall>e \<in> set [entry_3, entry_3]. is_error (entry_error e)"
    using e by simp
  have f1: "find (\<lambda>e. \<not> is_error (entry_error e)) [entry_3, entry_1, entry_2] = Some entry_1"
    using e by simp
  have f2: "find (\<lambda>e. \<not> is_error (entry_error e)) [entry_3, entry_2, entry_1] = Some entry_2"
    using e by simp
  have h1: "fst (host sample_resolver (new_lookup_result entry_1 ''8080'')) = Inr ''storage01.example.net:8080''"
    by (simp add: host_new_lookup_result getnameinfo_no_flags sample_resolver_nodes)
  have h2: "fst (host sample_resolver (new_lookup_result entry_2 ''8080'')) =
     Inl (Runtime_error ''can not make dns lookup'')"
    by (simp add: host_new_lookup_result getnameinfo_no_flags sample_resolver_nodes)
  have p: "fst (path (new_lookup_result entry_1 ''8080'')) = ''/srv/1/data-0.0:10:3''"
    by (simp add: path_def new_lookup_result_def entry_1_def Let_def string_of_nat.simps)
  show ?thesis
    using download_info_first_good_entry [OF n, of "[entry_3, entry_3]" sample_resolver "''8080''"]
      download_info_first_good_entry [OF n, of "[entry_3, entry_1, entry_2]" sample_resolver "''8080''"]
      download_info_first_good_entry [OF n, of "[entry_3, entry_2, entry_1]" sample_resolver "''8080''"]
      n a f1 f2 h1 h2 p
    by simp
qed

subsection \<open>Get completion\<close>

lemma embeded_flag_eq:
  "embeded_flag q rr =
     (has_item q ''embed'' \<or> has_item q ''embed_timestamp'' \<or> io_user_flags rr AND UF_EMBEDS \<noteq> 0)"
  by (auto simp: embeded_flag_def Let_def)

text \<open>
  A get completion without error unpacks the container with the embed flag that is
  the disjunction of the request's \<open>embed\<close> and \<open>embed_timestamp\<close> query flags and of
  the \<open>UF_EMBEDS\<close> bit of the result's user flags. Without a timestamp the reply is
  200 with the payload. With a timestamp that \<^verbatim>\<open>gmtime_r\<close> converts, the reply is 304
  without headers or body when the date string equals the \<^verbatim>\<open>If-Modified-Since\<close>
  header, and otherwise 200 with \<^verbatim>\<open>Last-Modified\<close> and the payload. With a timestamp
  that \<^verbatim>\<open>gmtime_r\<close> does not convert there is no reply.
\<close>

lemma get_completion_cases:
  assumes "\<not> is_error error"
    and "unpack cd (rr_file rr)
           (has_item q ''embed'' \<or> has_item q ''embed_timestamp'' \<or> io_user_flags rr AND UF_EMBEDS \<noteq> 0) =
         Inr dc"
  shows
    "case embed_timestamp dc of
       Some ts \<Rightarrow>
         (case gmtime_r cd (tv_sec ts) of
            None \<Rightarrow> req_get_on_finished cd q (rr # srr) error if_modified_since = None
          | Some tmp \<Rightarrow>
              (if if_modified_since = Some (strftime cd tmp)
               then req_get_on_finished cd q (rr # srr) error if_modified_since =
                      Some \<lparr>code = 304, headers = [], body = []\<rparr>
               else req_get_on_finished cd q (rr # srr) error if_modified_since =
                      Some \<lparr>code = 200,
                            headers = [(''Last-Modified'', strftime cd tmp),
                                       (''Content-Length'', string_of_nat (length (data dc))),
                                       (''Content-Type'', ''text/plain'')],
                            body = data dc\<rparr>))
     | None \<Rightarrow>
         req_get_on_finished cd q (rr # srr) error if_modified_since =
           Some \<lparr>code = 200,
                 headers = [(''Content-Length'', string_of_nat (length (data dc))),
                            (''Content-Type'', ''text/plain'')],
                 body = data dc\<rparr>"
proof -
  have u: "unpack cd (rr_file rr) (embeded_flag q rr) = Inr dc"
    using assms(2) by (simp only: embeded_flag_eq)
  show ?thesis
  proof (cases "embed_timestamp dc")
    case None
    then show ?thesis
      using assms(1) u
      by (simp add: req_get_on_finished_def Let_def headers_set_def)
  next
    case (Some ts)
    then show ?thesis
      using assms(1) u
      by (cases "gmtime_r cd (tv_sec ts)"; cases if_modified_since)
         (auto simp: req_get_on_finished_def Let_def headers_set_def send_reply_code_def)
  qed
qed

lemma unpack_sample_read:
  "unpack sample_codec (rr_file sample_read)
     (has_item [] ''embed'' \<or> has_item [] ''embed_timestamp'' \<or> io_user_flags sample_read AND UF_EMBEDS \<noteq> 0) =
   Inr \<lparr>data = ''abc'', embed_timestamp = Some \<lparr>tv_sec = 0, tv_nsec = 0\<rparr>\<rparr>"
  by (simp add: sample_codec_def sample_read_def UF_EMBEDS_def has_item_def)

lemma unpack_far_future_read:
  "unpack sample_codec (rr_file far_future_read)
     (has_item [] ''embed'' \<or> has_item [] ''embed_timestamp'' \<or>
      io_user_flags far_future_read AND UF_EMBEDS \<noteq> 0) =
   Inr \<lparr>data = ''abc'', embed_timestamp = Some \<lparr>tv_sec = 9223372036854775807, tv_nsec = 0\<rparr>\<rparr>"
  by (simp add: sample_codec_def far_future_read_def UF_EMBEDS_def has_item_def)

lemma sample_codec_dates:
  "gmtime_r sample_codec 0 = Some epoch_tm"
  "strftime sample_codec epoch_tm = ''Thu, 01 Jan 1970 00:00:00 GMT''"
  "gmtime_r sample_codec 9223372036854775807 = None"
  by (simp_all add: sample_codec_def epoch_tm_def)

text \<open>The conditional get on the epoch: the same date is answered 304, another 200.\<close>

lemma get_completion_conditional_sample:
  "req_get_on_finished sample_codec [] [sample_read] no_error (Some ''Thu, 01 Jan 1970 00:00:00 GMT'') =
     Some \<lparr>code = 304, headers = [], body = []\<rparr> \<and>
   req_get_on_finished sample_codec [] [sample_read] no_error (Some ''Thu, 01 Jan 1970 00:00:01 GMT'') =
     Some \<lparr>code = 200,
           headers = [(''Last-Modified'', ''Thu, 01 Jan 1970 00:00:00 GMT''),
                      (''Content-Length'', ''3''), (''Content-Type'', ''text/plain'')],
           body = ''abc''\<rparr>"
proof -
  have n: "\<not> is_error no_error"
    by (simp add: is_error_def no_error_def)
  show ?thesis
    using get_completion_cases [OF n unpack_sample_read, where srr = "[]"
           and if_modified_since = "Some ''Thu, 01 Jan 1970 00:00:00 GMT''"]
      get_completion_cases [OF n unpack_sample_read, where srr = "[]"
           and if_modified_since = "Some ''Thu, 01 Jan 1970 00:00:01 GMT''"]
    by (simp add: sample_codec_dates string_of_nat.simps)
qed

text \<open>
  C4: a get completion without error is to be answered 304 when the embedded
  timestamp's date string equals \<^verbatim>\<open>If-Modified-Since\<close>, and otherwise 200 with
  \<^verbatim>\<open>Last-Modified\<close> and the payload. The handler hands the result of \<^verbatim>\<open>gmtime_r\<close> to
  \<^verbatim>\<open>strftime\<close> without testing it. An upload with \<^verbatim>\<open>embed\<close> and
  \<^verbatim>\<open>timestamp=9223372036854775807\<close> stores that time stamp; for the object read back,
  \<^verbatim>\<open>gmtime_r\<close> returns the null pointer and the completion sends no reply at all.
\<close>

theorem get_unconvertible_timestamp_no_reply:
  "upload_container far_future_server [(''embed'', []), (''timestamp'', ''9223372036854775807'')] ''abc'' =
     Inr \<lparr>data = ''abc'', embed_timestamp = Some \<lparr>tv_sec = 9223372036854775807, tv_nsec = 0\<rparr>\<rparr> \<and>
   unpack sample_codec (rr_file far_future_read) (embeded_flag [] far_future_read) =
     Inr \<lparr>data = ''abc'', embed_timestamp = Some \<lparr>tv_sec = 9223372036854775807, tv_nsec = 0\<rparr>\<rparr> \<and>
   gmtime_r sample_codec 9223372036854775807 = None \<and>
   req_get_on_finished sample_codec [] [far_future_read] no_error None = None"
proof -
  have n: "\<not> is_error no_error"
    by (simp add: is_error_def no_error_def)
  have up: "upload_container far_future_server
              [(''embed'', []), (''timestamp'', ''9223372036854775807'')] ''abc'' =
     Inr \<lparr>data = ''abc'', embed_timestamp = Some \<lparr>tv_sec = 9223372036854775807, tv_nsec = 0\<rparr>\<rparr>"
    by (simp add: upload_container_def get_arg_uint64_def item_value_def has_item_def
        far_future_server_def Let_def)
  have un: "unpack sample_codec (rr_file far_future_read) (embeded_flag [] far_future_read) =
     Inr \<lparr>data = ''abc'', embed_timestamp = Some \<lparr>tv_sec = 9223372036854775807, tv_nsec = 0\<rparr>\<rparr>"
    using unpack_far_future_read by (simp only: embeded_flag_eq)
  have r: "req_get_on_finished sample_codec [] [far_future_read] no_error None = None"
    using get_completion_cases [OF n unpack_far_future_read, where srr = "[]" and if_modified_since = None]
    by (simp add: sample_codec_dates)
  from up un sample_codec_dates(3) r show ?thesis by blast
qed

subsection \<open>Cache\<close>

lemma req_cache_on_request_body:
  \<open>body (req_cache_on_request mm req) =
     ''{\<newline>'' @ join_fields (map render_field (requested_fields mm (query req))) @
     (if requested_fields mm (query req) = [] then [] else ''\<newline>'') @ ''}\<newline>''\<close>
  by (simp add: req_cache_on_request_def requested_fields_def cache_fields_def render_field_def Let_def)

lemma req_cache_on_request_items:
  assumes "fst ` set (query req') = fst ` set (query req)"
  shows "req_cache_on_request mm req' = req_cache_on_request mm req"
  unfolding req_cache_on_request_def Let_def has_item_def assms by (rule refl)

text \<open>
  C7: the body of a cache reply is a JSON object holding exactly those of the fields
  \<open>group-weights\<close>, \<open>symmetric-groups\<close>, \<open>bad-groups\<close>, \<open>cache-groups\<close> whose flag is
  in the query, in this order whatever the order of the query, separated by a comma
  (and a newline); without any of the flags the object is empty (an opening brace, a
  newline, a closing brace, a newline).
\<close>

theorem cache_body_fixed_order:
  \<open>code (req_cache_on_request mm req) = 200 \<and>
   body (req_cache_on_request mm req) =
     ''{\<newline>'' @ join_fields (map render_field (requested_fields mm (query req))) @
     (if requested_fields mm (query req) = [] then [] else ''\<newline>'') @ ''}\<newline>'' \<and>
   map fst (requested_fields mm (query req)) =
     filter (has_item (query req)) [''group-weights'', ''symmetric-groups'', ''bad-groups'', ''cache-groups''] \<and>
   (\<forall>f. render_field f = ''"'' @ fst f @ ''" : '' @ snd f) \<and>
   (\<forall>req'. fst ` set (query req') = fst ` set (query req) \<longrightarrow>
      req_cache_on_request mm req' = req_cache_on_request mm req) \<and>
   (\<not> has_item (query req) ''group-weights'' \<and> \<not> has_item (query req) ''symmetric-groups'' \<and>
    \<not> has_item (query req) ''bad-groups'' \<and> \<not> has_item (query req) ''cache-groups'' \<longrightarrow>
      body (req_cache_on_request mm req) = ''{\<newline>}\<newline>'')\<close>
proof (intro conjI allI impI)
  show "code (req_cache_on_request mm req) = 200"
    by (simp add: req_cache_on_request_def Let_def split: prod.splits)
  show \<open>body (req_cache_on_request mm req) =
     ''{\<newline>'' @ join_fields (map render_field (requested_fields mm (query req))) @
     (if requested_fields mm (query req) = [] then [] else ''\<newline>'') @ ''}\<newline>''\<close>
    by (rule req_cache_on_request_body)
  show "map fst (requested_fields mm (query req)) =
     filter (has_item (query req)) [''group-weights'', ''symmetric-groups'', ''bad-groups'', ''cache-groups'']"
    by (simp add: requested_fields_def cache_fields_def)
  show \<open>render_field f = ''"'' @ fst f @ ''" : '' @ snd f\<close> for f
    by (simp add: render_field_def)
  show "req_cache_on_request mm req' = req_cache_on_request mm req"
    if "fst ` set (query req') = fst ` set (query req)" for req'
    using that by (rule req_cache_on_request_items)
  show \<open>body (req_cache_on_request mm req) = ''{\<newline>}\<newline>''\<close>
    if "\<not> has_item (query req) ''group-weights'' \<and> \<not> has_item (query req) ''symmetric-groups'' \<and>
        \<not> has_item (query req) ''bad-groups'' \<and> \<not> has_item (query req) ''cache-groups''"
    using that by (simp add: req_cache_on_request_def Let_def)
qed

theorem cache_body_fixed_order_witness:
  \<open>fst ` set (query cache_request_swapped) = fst ` set (query cache_request) \<and>
   req_cache_on_request sample_mastermind cache_request_swapped =
     req_cache_on_request sample_mastermind cache_request \<and>
   body (req_cache_on_request sample_mastermind cache_request_swapped) =
     ''{\<newline>"group-weights" : {"1":2},\<newline>"bad-groups" : [7]\<newline>}\<newline>'' \<and>
   \<not> has_item (query cache_request_plain) ''group-weights'' \<and>
   body (req_cache_on_request sample_mastermind cache_request_plain) = ''{\<newline>}\<newline>''\<close>
proof -
  have s: "fst ` set (query cache_request_swapped) = fst ` set (query cache_request)"
    by (auto simp: cache_request_swapped_def cache_request_def)
  have p: "\<not> has_item (query cache_request_plain) ''group-weights'' \<and>
           \<not> has_item (query cache_request_plain) ''symmetric-groups'' \<and>
           \<not> has_item (query cache_request_plain) ''bad-groups'' \<and>
           \<not> has_item (query cache_request_plain) ''cache-groups''"
    by (simp add: cache_request_plain_def has_item_def)
  have r: "requested_fields sample_mastermind (query cache_request_swapped) =
           [(''group-weights'', ''{\"1\":2}''), (''bad-groups'', ''[7]'')]"
    by (simp add: requested_fields_def cache_fields_def has_item_def cache_request_swapped_def
        sample_mastermind_def)
  from cache_body_fixed_order [of sample_mastermind cache_request] s
  have eq: "req_cache_on_request sample_mastermind cache_request_swapped =
            req_cache_on_request sample_mastermind cache_request"
    by blast
  from cache_body_fixed_order [of sample_mastermind cache_request_swapped]
  have \<open>body (req_cache_on_request sample_mastermind cache_request_swapped) =
     ''{\<newline>'' @ join_fields (map render_field (requested_fields sample_mastermind (query cache_request_swapped))) @
     (if requested_fields sample_mastermind (query cache_request_swapped) = [] then [] else ''\<newline>'') @
     ''}\<newline>''\<close>
    by blast
  then have b: \<open>body (req_cache_on_request sample_mastermind cache_request_swapped) =
     ''{\<newline>"group-weights" : {"1":2},\<newline>"bad-groups" : [7]\<newline>}\<newline>''\<close>
    by (simp add: r render_field_def)
  from cache_body_fixed_order [of sample_mastermind cache_request_plain] p
  have e: \<open>body (req_cache_on_request sample_mastermind cache_request_plain) = ''{\<newline>}\<newline>''\<close>
    by blast
  from s eq b p e show ?thesis by blast
qed

subsection \<open>Namespace registry\<close>

lemma namespace_of_member_Inr:
  assumes "namespace_of_member n v = Inr item"
  shows "name item = n \<and>
         member v ''groups-count'' = Inr (JInt (groups_count item)) \<and>
         HasMember v ''groups-count'' = Inr True \<and>
         HasMember v ''success-copies-num'' = Inr True \<and>
         (\<exists>scn. member v ''success-copies-num'' = Inr (JString scn) \<and>
                (scn = ''all'' \<or> scn = ''quorum'' \<or> scn = ''any''))"
  using assms
  by (auto simp: namespace_of_member_def GetInt_def GetString_def Let_def namespace_t_default_def
      split: sum.splits bool.splits json.splits if_splits)

lemma namespaces_loop_Inr:
  assumes "namespaces_loop ms res0 = Inr res"
  shows "(\<forall>n v. (n, v) \<in> set ms \<longrightarrow> (\<exists>item. namespace_of_member n v = Inr item)) \<and>
         (\<forall>n ns. res n = Some ns \<longrightarrow>
            res0 n = Some ns \<or> (\<exists>v. (n, v) \<in> set ms \<and> namespace_of_member n v = Inr ns))"
  using assms
proof (induction ms arbitrary: res0)
  case Nil
  then show ?case by simp
next
  case (Cons m ms)
  obtain n v where m: "m = (n, v)" by (cases m)
  from Cons.prems m obtain item where
    i: "namespace_of_member n v = Inr item" and
    l: "namespaces_loop ms (if res0 (name item) = None then res0(name item \<mapsto> item) else res0) = Inr res"
    by (auto split: sum.splits)
  have nm: "name item = n"
    using namespace_of_member_Inr[OF i] by simp
  note ih = Cons.IH[OF l]
  show ?case
  proof (intro conjI allI impI)
    fix n' v'
    assume "(n', v') \<in> set (m # ms)"
    then show "\<exists>item. namespace_of_member n' v' = Inr item"
      using ih i m by auto
  next
    fix n' ns
    assume "res n' = Some ns"
    then have "(if res0 (name item) = None then res0(name item \<mapsto> item) else res0) n' = Some ns \<or>
               (\<exists>v. (n', v) \<in> set ms \<and> namespace_of_member n' v = Inr ns)"
      using ih by blast
    then show "res0 n' = Some ns \<or> (\<exists>v. (n', v) \<in> set (m # ms) \<and> namespace_of_member n' v = Inr ns)"
      using i m nm by (auto split: if_splits)
  qed
qed

lemma generate_namespaces_Inr:
  assumes "generate_namespaces config = Inr res"
  shows "\<exists>ms. member config ''namespaces'' = Inr (JObject ms) \<and> namespaces_loop ms Map.empty = Inr res"
  using assms
  by (auto simp: generate_namespaces_def split: sum.splits bool.splits json.splits)

lemma generate_namespaces_Inl:
  assumes "member config ''namespaces'' = Inr (JObject ms)"
    and "(n, v) \<in> set ms" and "isl (namespace_of_member n v)"
  shows "isl (generate_namespaces config)"
proof (rule ccontr)
  assume "\<not> isl (generate_namespaces config)"
  then obtain res where "generate_namespaces config = Inr res"
    by (cases "generate_namespaces config") auto
  then have "namespaces_loop ms Map.empty = Inr res"
    using generate_namespaces_Inr assms(1) by fastforce
  then have "\<exists>item. namespace_of_member n v = Inr item"
    using namespaces_loop_Inr assms(2) by blast
  then show False using assms(3) by auto
qed

lemma namespace_of_member_malformed:
  assumes "HasMember v ''groups-count'' = Inr False \<or>
           HasMember v ''success-copies-num'' = Inr False \<or>
           (\<exists>scn. member v ''success-copies-num'' = Inr (JString scn) \<and>
                  scn \<noteq> ''all'' \<and> scn \<noteq> ''quorum'' \<and> scn \<noteq> ''any'')"
  shows "isl (namespace_of_member n v)"
proof (rule ccontr)
  assume "\<not> isl (namespace_of_member n v)"
  then obtain item where "namespace_of_member n v = Inr item"
    by (cases "namespace_of_member n v") auto
  from namespace_of_member_Inr[OF this] assms show False by auto
qed

text \<open>
  C8, as the code has it: a namespace stored by a successful load carries the name
  of its entry and the integer the entry gives as \<open>groups-count\<close>, whatever its sign
  (the loader does not compare it with zero); and the load fails with an error when
  an entry of \<open>namespaces\<close> lacks \<open>groups-count\<close> or \<open>success-copies-num\<close>, or gives a
  \<open>success-copies-num\<close> other than \<open>all\<close>, \<open>quorum\<close>, \<open>any\<close>.
\<close>

theorem namespaces_loaded_as_configured:
  "(\<forall>res n ns. generate_namespaces config = Inr res \<and> res n = Some ns \<longrightarrow>
      name ns = n \<and>
      (\<exists>ms v. member config ''namespaces'' = Inr (JObject ms) \<and> (n, v) \<in> set ms \<and>
              member v ''groups-count'' = Inr (JInt (groups_count ns)))) \<and>
   (\<forall>ms n v. member config ''namespaces'' = Inr (JObject ms) \<and> (n, v) \<in> set ms \<and>
      (HasMember v ''groups-count'' = Inr False \<or>
       HasMember v ''success-copies-num'' = Inr False \<or>
       (\<exists>scn. member v ''success-copies-num'' = Inr (JString scn) \<and>
              scn \<noteq> ''all'' \<and> scn \<noteq> ''quorum'' \<and> scn \<noteq> ''any'')) \<longrightarrow>
      isl (generate_namespaces config))"
proof (intro conjI allI impI)
  fix res n ns
  assume a: "generate_namespaces config = Inr res \<and> res n = Some ns"
  then obtain ms where ms: "member config ''namespaces'' = Inr (JObject ms)"
    and l: "namespaces_loop ms Map.empty = Inr res"
    using generate_namespaces_Inr by blast
  from namespaces_loop_Inr[OF l] a obtain v where
    v: "(n, v) \<in> set ms" and i: "namespace_of_member n v = Inr ns"
    by fastforce
  show "name ns = n"
    using namespace_of_member_Inr[OF i] by simp
  show "\<exists>ms v. member config ''namespaces'' = Inr (JObject ms) \<and> (n, v) \<in> set ms \<and>
              member v ''groups-count'' = Inr (JInt (groups_count ns))"
    using ms v namespace_of_member_Inr[OF i] by blast
next
  fix ms n v
  assume a: "member config ''namespaces'' = Inr (JObject ms) \<and> (n, v) \<in> set ms \<and>
      (HasMember v ''groups-count'' = Inr False \<or>
       HasMember v ''success-copies-num'' = Inr False \<or>
       (\<exists>scn. member v ''success-copies-num'' = Inr (JString scn) \<and>
              scn \<noteq> ''all'' \<and> scn \<noteq> ''quorum'' \<and> scn \<noteq> ''any''))"
  then have "isl (namespace_of_member n v)"
    using namespace_of_member_malformed by blast
  with a show "isl (generate_namespaces config)"
    using generate_namespaces_Inl by blast
qed

lemma namespace_of_member_good_entry:
  "namespace_of_member ''foo'' good_entry = Inr good_namespace"
  by (simp add: namespace_of_member_def good_entry_def HasMember_def member_def GetInt_def
      GetString_def namespace_t_default_def good_namespace_def Let_def)

lemma generate_namespaces_good_config:
  "generate_namespaces good_config = Inr [''foo'' \<mapsto> good_namespace]"
  by (simp add: generate_namespaces_def good_config_def HasMember_def member_def
      namespace_of_member_good_entry)
     (simp add: good_namespace_def)

lemma member_config_with:
  "member (config_with entry) ''namespaces'' = Inr (JObject [(''foo'', good_entry), (''bar'', entry)])"
  by (simp add: config_with_def member_def)

theorem namespaces_loaded_as_configured_witness:
  "generate_namespaces good_config = Inr [''foo'' \<mapsto> good_namespace] \<and>
   name good_namespace = ''foo'' \<and>
   HasMember no_count_entry ''groups-count'' = Inr False \<and>
   isl (generate_namespaces (config_with no_count_entry)) \<and>
   HasMember no_copies_entry ''success-copies-num'' = Inr False \<and>
   isl (generate_namespaces (config_with no_copies_entry)) \<and>
   member bad_copies_entry ''success-copies-num'' = Inr (JString ''most'') \<and>
   isl (generate_namespaces (config_with bad_copies_entry))"
proof -
  note stored_part = namespaces_loaded_as_configured [of good_config, THEN conjunct1, rule_format,
      where res = "[''foo'' \<mapsto> good_namespace]" and n = "''foo''" and ns = good_namespace]
  have s: "name good_namespace = ''foo''"
    using stored_part generate_namespaces_good_config by simp
  have h1: "HasMember no_count_entry ''groups-count'' = Inr False"
    by (simp add: HasMember_def no_count_entry_def)
  have h2: "HasMember no_copies_entry ''success-copies-num'' = Inr False"
    by (simp add: HasMember_def no_copies_entry_def)
  have h3: "member bad_copies_entry ''success-copies-num'' = Inr (JString ''most'')"
    by (simp add: member_def bad_copies_entry_def)
  have c1: "isl (generate_namespaces (config_with no_count_entry))"
    by (rule namespaces_loaded_as_configured [of "config_with no_count_entry", THEN conjunct2,
          rule_format, where n = "''bar''" and v = no_count_entry
          and ms = "[(''foo'', good_entry), (''bar'', no_count_entry)]"])
       (simp add: member_config_with h1)
  have c2: "isl (generate_namespaces (config_with no_copies_entry))"
    by (rule namespaces_loaded_as_configured [of "config_with no_copies_entry", THEN conjunct2,
          rule_format, where n = "''bar''" and v = no_copies_entry
          and ms = "[(''foo'', good_entry), (''bar'', no_copies_entry)]"])
       (simp add: member_config_with h2)
  have c3: "isl (generate_namespaces (config_with bad_copies_entry))"
    by (rule namespaces_loaded_as_configured [of "config_with bad_copies_entry", THEN conjunct2,
          rule_format, where n = "''bar''" and v = bad_copies_entry
          and ms = "[(''foo'', good_entry), (''bar'', bad_copies_entry)]"])
       (simp add: member_config_with h3)
  from generate_namespaces_good_config s h1 h2 h3 c1 c2 c3 show ?thesis by blast
qed

text \<open>
  The configuration whose namespace \<open>foo\<close> asks for zero groups loads, and \<open>foo\<close> is
  stored with \<open>groups_count = 0\<close>.
\<close>

theorem zero_groups_count_is_stored:
  "\<not> isl (generate_namespaces zero_groups_config) \<and>
   stored (generate_namespaces zero_groups_config) ''foo'' = Some zero_groups_namespace \<and>
   \<not> 0 < groups_count zero_groups_namespace"
  by (simp add: stored_def generate_namespaces_def zero_groups_config_def HasMember_def member_def
      namespace_of_member_def GetInt_def GetString_def namespace_t_default_def
      zero_groups_namespace_def Let_def)

subsection \<open>Upload completion on other result sets\<close>



text \<open>
  Without the error, with three groups in the session and a result set of one
  entry, the document has one \<open>complete\<close> element and counts one group. Without
  groups in the session, the minimum of the group list is read from an empty list
  and there is no reply.
\<close>

theorem upload_one_result_of_three_groups:
  \<open>length (session_groups foo_upload) = 3 \<and>
   map_option (code \<circ> snd)
     (req_upload_on_finished sample_resolver foo_upload [entry_1] no_error) = Some 200 \<and>
   map_option (body \<circ> snd)
     (req_upload_on_finished sample_resolver foo_upload [entry_1] no_error) =
   Some (''<?xml version="1.0" encoding="utf-8"?>\<newline>'' @
         ''<post obj="file" id="00ff" groups="1" size="3" key="/1/file">\<newline>'' @
         ''<complete addr="node-1:1025" path="/srv/1/data-0.0" group="1" status="0"/>\<newline>'' @
         ''<written>1</written>\<newline></post>'') \<and>
   req_upload_on_finished sample_resolver (foo_upload\<lparr>session_groups := []\<rparr>) [] no_error = None\<close>
proof -
  have h: "\<not> is_error no_error"
    by (simp add: is_error_def no_error_def)
  have g: "min_element (session_groups foo_upload) = Some 1"
    by (simp add: min_element_def foo_upload_def)
  have l: "length (session_groups foo_upload) = 3"
    by (simp add: foo_upload_def)
  have n: "length [entry_1] = 1" "length (m_content foo_upload) = 3"
    "length (filter (\<lambda>entry. cmd_status entry = 0) [entry_1]) = 1"
    by (simp_all add: foo_upload_def entry_1_def)
  have p: \<open>post_element_open sample_resolver foo_upload [entry_1] 1 =
     ''<?xml version="1.0" encoding="utf-8"?>\<newline><post obj="file" id="00ff" groups="1" size="3" key="/1/file">\<newline>''\<close>
    unfolding post_element_open_def n
    by (simp add: foo_upload_def sample_resolver_def string_of_int_def string_of_small_nat)
  have c: \<open>concat (map (complete_element sample_resolver (sign_port foo_upload)) [entry_1]) =
     ''<complete addr="node-1:1025" path="/srv/1/data-0.0" group="1" status="0"/>\<newline>''\<close>
    by (simp add: complete_element_eq sample_resolver_def entry_1_def
        string_of_int_def string_of_small_nat)
  have b: \<open>map_option (body \<circ> snd)
     (req_upload_on_finished sample_resolver foo_upload [entry_1] no_error) =
   Some (''<?xml version="1.0" encoding="utf-8"?>\<newline>'' @
         ''<post obj="file" id="00ff" groups="1" size="3" key="/1/file">\<newline>'' @
         ''<complete addr="node-1:1025" path="/srv/1/data-0.0" group="1" status="0"/>\<newline>'' @
         ''<written>1</written>\<newline></post>'')\<close>
    unfolding req_upload_on_finished_success[OF h g] n p c
    by (simp add: string_of_small_nat)
  have k: "map_option (code \<circ> snd)
     (req_upload_on_finished sample_resolver foo_upload [entry_1] no_error) = Some 200"
    unfolding req_upload_on_finished_success[OF h g]
    by simp
  have u: "req_upload_on_finished sample_resolver (foo_upload\<lparr>session_groups := []\<rparr>) [] no_error = None"
    using h by (simp add: req_upload_on_finished_def min_element_def Let_def)
  from l k b u show ?thesis by blast
qed


end
